theory Spec2Isabelle
  imports Complex_Main
begin

section \<open>Data model\<close>

text \<open>
  Python's unbounded integers are \<open>int\<close>; its floats are idealised as \<open>real\<close>
  (exact arithmetic, no rounding, no infinities, no NaN).
\<close>

datatype RegimeKind = CALM | VOLATILE | CRISIS

fun regime_value :: "RegimeKind \<Rightarrow> int" where
  "regime_value CALM = 0"
| "regime_value VOLATILE = 1"
| "regime_value CRISIS = 2"

record HazardCurve =
  regime :: RegimeKind
  H_7d :: int
  H_30d :: int
  H_90d :: int
  tail_slope :: int
  calibration_date :: string
  n_simulations :: int

text \<open>\<open>HazardCurve.interpolate\<close>: \<open>//\<close> is Python's floor division, which is \<open>div\<close> on \<open>int\<close>.\<close>

definition interpolate :: "HazardCurve \<Rightarrow> int \<Rightarrow> int" where
  "interpolate c tenor_days =
     (if tenor_days \<le> 0 then 0
      else if tenor_days \<le> 7 then (H_7d c * tenor_days) div 7
      else if tenor_days \<le> 30 then
        H_7d c + ((H_30d c - H_7d c) * (tenor_days - 7)) div (30 - 7)
      else if tenor_days \<le> 90 then
        H_30d c + ((H_90d c - H_30d c) * (tenor_days - 30)) div (90 - 30)
      else H_90d c + tail_slope c * (tenor_days - 90))"

section \<open>Errors and numpy helpers\<close>

text \<open>
  Every \<open>raise\<close> of the source is a value. The \<open>ValueError\<close>s (the ones
  \<open>except ValueError\<close> catches) carry what the message says, without its formatting.
  \<open>QuantileOutOfRange\<close> and \<open>NegativeScale\<close> are the \<open>ValueError\<close>s numpy itself raises
  (a quantile outside [0, 1], a negative scale of \<open>Generator.exponential\<close>);
  \<open>EmptySequence\<close> is \<open>max([])\<close> or \<open>np.argmax\<close> of nothing, \<open>ShapeMismatch\<close> is sklearn's
  for a row of the wrong length, \<open>InvalidRegime\<close> is \<open>RegimeKind(i)\<close> outside 0, 1, 2.
  \<open>TypeError\<close> is a subscript of \<open>None\<close>.
\<close>

datatype value_error =
    InsufficientExcesses nat
  | InsufficientEvents nat
  | UnknownMethod string
  | NotFitted
  | QuantileOutOfRange
  | NegativeScale
  | EmptySequence
  | ShapeMismatch
  | InvalidRegime nat

datatype error =
    ValueError value_error
  | KeyError int
  | IndexError
  | ZeroDivisionError
  | OverflowError
  | TypeError

text \<open>\<open>np.mean\<close> of a non-empty array, and the population variance \<open>np.var\<close>.\<close>

definition np_mean :: "real list \<Rightarrow> real" where
  "np_mean xs = sum_list xs / real (length xs)"

definition np_var :: "real list \<Rightarrow> real" where
  "np_var xs = np_mean (map (\<lambda>x. (x - np_mean xs)\<^sup>2) xs)"

text \<open>
  \<open>np.quantile(a, q)\<close> with numpy's default linear method: the order statistic at the
  virtual index \<open>q * (n - 1)\<close>, interpolated between its two neighbours. numpy checks
  \<open>q\<close> first and raises \<open>ValueError\<close> outside [0, 1]. An empty array has no order
  statistic (numpy yields nan or raises, by version); the model raises \<open>IndexError\<close>.
\<close>

definition np_quantile :: "real list \<Rightarrow> real \<Rightarrow> error + real" where
  "np_quantile a q =
     (if q < 0 \<or> 1 < q then Inl (ValueError QuantileOutOfRange)
      else if a = [] then Inl IndexError
      else
        let s = sort a;
            n = length s;
            h = q * real (n - 1);
            j = nat \<lfloor>h\<rfloor>;
            g = h - real j;
            lo = s ! j;
            hi = s ! (min (j + 1) (n - 1))
        in Inr (lo + (hi - lo) * g))"

text \<open>
  Boolean-mask indexing \<open>a[mask]\<close>: numpy raises \<open>IndexError\<close> when the mask's length
  is not the array's.
\<close>

definition np_mask :: "'a list \<Rightarrow> bool list \<Rightarrow> error + 'a list" where
  "np_mask a msk =
     (if length a \<noteq> length msk then Inl IndexError
      else Inr (map fst (filter snd (zip a msk))))"

text \<open>\<open>int(x)\<close> of a float truncates towards zero.\<close>

definition py_int :: "real \<Rightarrow> int" where
  "py_int x = (if 0 \<le> x then \<lfloor>x\<rfloor> else \<lceil>x\<rceil>)"

text \<open>
  \<open>a / b\<close> on two Python ints: true division, the quotient rounded to a float. It raises
  \<open>ZeroDivisionError\<close> at \<open>b = 0\<close> and \<open>OverflowError\<close> when the rounded quotient is
  outside the float range, that is from \<open>2 ^ 1024 - 2 ^ 970\<close> on in absolute value.
\<close>

definition py_true_div :: "int \<Rightarrow> int \<Rightarrow> error + real" where
  "py_true_div a b =
     (if b = 0 then Inl ZeroDivisionError
      else if 2 ^ 1024 - 2 ^ 970 \<le> \<bar>real_of_int a / real_of_int b\<bar> then Inl OverflowError
      else Inr (real_of_int a / real_of_int b))"

section \<open>Random generators\<close>

text \<open>
  numpy's \<open>Generator\<close> is a parameter of the model: a state type \<open>'g\<close> with the draws the
  code makes, each returning the value drawn and the next state. Seeds are natural
  numbers, as numpy accepts no other. \<open>np.random.default_rng(None)\<close> takes fresh entropy
  from the operating system: that state is the argument \<open>entropy\<close>, which differs from one
  run to the next.
\<close>

record 'g Generator =
  seeded :: "nat \<Rightarrow> 'g"
  integers :: "'g \<Rightarrow> nat \<times> 'g"
  exponential :: "real \<Rightarrow> 'g \<Rightarrow> real \<times> 'g"
  uniform :: "'g \<Rightarrow> real \<times> 'g"

definition default_rng :: "'g Generator \<Rightarrow> 'g \<Rightarrow> nat option \<Rightarrow> 'g" where
  "default_rng G entropy seed = (case seed of None \<Rightarrow> entropy | Some s \<Rightarrow> seeded G s)"

text \<open>\<open>rng.exponential(scale)\<close>: numpy raises \<open>ValueError\<close> on a negative scale.\<close>

definition rng_exponential :: "'g Generator \<Rightarrow> real \<Rightarrow> 'g \<Rightarrow> error + real \<times> 'g" where
  "rng_exponential G scale g =
     (if scale < 0 then Inl (ValueError NegativeScale) else Inr (exponential G scale g))"

text \<open>\<open>rng.uniform(0, 1, n)\<close>: \<open>n\<close> successive draws.\<close>

fun rng_uniform_n :: "'g Generator \<Rightarrow> nat \<Rightarrow> 'g \<Rightarrow> real list \<times> 'g" where
  "rng_uniform_n G 0 g = ([], g)"
| "rng_uniform_n G (Suc n) g =
     (case uniform G g of (u, g1) \<Rightarrow>
        (case rng_uniform_n G n g1 of (us, g2) \<Rightarrow> (u # us, g2)))"

section \<open>EVT model (models/evt.py)\<close>

record GPDParams =
  xi :: real
  beta :: real
  threshold :: real
  n_excesses :: nat
  n_total :: nat

text \<open>
  The fitted \<open>EVTModel\<close>: \<open>gpd_params\<close> is \<open>None\<close> before \<open>fit\<close>; \<open>evt_data\<close> and
  \<open>evt_excesses\<close> are the attributes \<open>_data\<close> and \<open>_excesses\<close>.
\<close>

record EVTModel =
  gpd_params :: "GPDParams option"
  evt_data :: "real list"
  evt_excesses :: "real list"

text \<open>
  \<open>_fit_gpd_mle\<close>. The objective is the source's; \<open>scipy.optimize.minimize\<close> (Nelder-Mead)
  is the parameter \<open>nelder_mead\<close>, given the objective and the initial guess.
\<close>

definition gpd_neg_log_likelihood :: "real list \<Rightarrow> real \<times> real \<Rightarrow> real" where
  "gpd_neg_log_likelihood excesses params =
     (case params of (xi', log_beta) \<Rightarrow>
        let beta' = exp log_beta in
        if beta' \<le> 0 then 10 ^ 10
        else
          let n = real (length excesses) in
          if \<bar>xi'\<bar> < 1 / 10 ^ 10 then n * log_beta + sum_list excesses / beta'
          else
            let term = map (\<lambda>x. 1 + xi' * x / beta') excesses in
            if list_ex (\<lambda>t. t \<le> 0) term then 10 ^ 10
            else n * log_beta + (1 + 1 / xi') * sum_list (map ln term))"

definition fit_gpd_mle ::
  "((real \<times> real \<Rightarrow> real) \<Rightarrow> real \<times> real \<Rightarrow> real \<times> real) \<Rightarrow> real list \<Rightarrow> real \<times> real" where
  "fit_gpd_mle nelder_mead excesses =
     (let mean_excess = np_mean excesses;
          var_excess = np_var excesses;
          xi_init = 0.5 * (mean_excess\<^sup>2 / var_excess - 1);
          beta_init = mean_excess * (1 - xi_init);
          result = nelder_mead (gpd_neg_log_likelihood excesses)
                     (xi_init, ln (max beta_init 0.01))
      in (fst result, exp (snd result)))"

text \<open>\<open>_fit_gpd_pwm\<close>: the weights are \<open>np.arange(1, n + 1) / (n + 1)\<close>.\<close>

definition fit_gpd_pwm :: "real list \<Rightarrow> real \<times> real" where
  "fit_gpd_pwm excesses =
     (let n = length excesses;
          excesses_sorted = sort excesses;
          weights = map (\<lambda>i. real i / real (n + 1)) [1..<n + 1];
          m0 = np_mean excesses_sorted;
          m1 = np_mean (map (\<lambda>(x, w). x * w) (zip excesses_sorted weights));
          xi' = 2 - m0 / (m0 - 2 * m1);
          beta' = 2 * m0 * m1 / (m0 - 2 * m1)
      in (xi', beta'))"

text \<open>
  \<open>EVTModel.fit\<close>, returning the fitted model. The checks come in the source's order:
  the quantile, the count of excesses, then the method name.
\<close>

definition evt_fit ::
  "((real \<times> real \<Rightarrow> real) \<Rightarrow> real \<times> real \<Rightarrow> real \<times> real) \<Rightarrow>
   real list \<Rightarrow> real \<Rightarrow> string \<Rightarrow> error + EVTModel" where
  "evt_fit nelder_mead data threshold_quantile method =
     (case np_quantile data threshold_quantile of
        Inl e \<Rightarrow> Inl e
      | Inr threshold' \<Rightarrow>
          let excesses = map (\<lambda>x. x - threshold') (filter (\<lambda>x. x > threshold') data);
              fitted = (\<lambda>p. Inr \<lparr>gpd_params =
                           Some \<lparr>xi = fst p, beta = snd p, threshold = threshold',
                                 n_excesses = length excesses, n_total = length data\<rparr>,
                         evt_data = data, evt_excesses = excesses\<rparr>)
          in if length excesses < 10 then
               Inl (ValueError (InsufficientExcesses (length excesses)))
             else if method = ''mle'' then fitted (fit_gpd_mle nelder_mead excesses)
             else if method = ''pwm'' then fitted (fit_gpd_pwm excesses)
             else Inl (ValueError (UnknownMethod method)))"



text \<open>
  \<open>EVTModel.simulate\<close>: inverse-CDF sampling from a generator seeded with \<open>seed\<close>.
\<close>

definition evt_simulate ::
  "'g Generator \<Rightarrow> 'g \<Rightarrow> EVTModel \<Rightarrow> nat \<Rightarrow> nat option \<Rightarrow> error + real list" where
  "evt_simulate G entropy m n_samples seed =
     (case gpd_params m of
        None \<Rightarrow> Inl (ValueError NotFitted)
      | Some params \<Rightarrow>
          let rng = default_rng G entropy seed;
              u = fst (rng_uniform_n G n_samples rng);
              excesses =
                (if xi params = 0 then map (\<lambda>v. - GPDParams.beta params * ln v) u
                 else map (\<lambda>v. (GPDParams.beta params / xi params) * (v powr (- xi params) - 1)) u)
          in Inr (map (\<lambda>e. threshold params + e) excesses))"

section \<open>Hawkes process (models/hawkes.py)\<close>

record HawkesParams =
  lambda0 :: real
  alpha :: real
  beta :: real

text \<open>\<open>branching_ratio\<close>: \<open>None\<close> stands for \<open>float("inf")\<close>.\<close>

definition branching_ratio :: "HawkesParams \<Rightarrow> real option" where
  "branching_ratio p =
     (if HawkesParams.beta p > 0 then Some (alpha p / HawkesParams.beta p) else None)"

definition is_stable :: "HawkesParams \<Rightarrow> bool" where
  "is_stable p = (case branching_ratio p of None \<Rightarrow> False | Some br \<Rightarrow> br < 1)"

text \<open>
  The \<open>HawkesProcess\<close> object: \<open>params\<close> is \<open>None\<close> before \<open>fit\<close>; \<open>hawkes_event_times\<close>
  and \<open>hawkes_T_max\<close> are the attributes \<open>_event_times\<close> and \<open>_T_max\<close>.
\<close>

record HawkesProcess =
  params :: "HawkesParams option"
  hawkes_event_times :: "real list"
  hawkes_T_max :: real

text \<open>
  The objective of \<open>_fit_mle\<close>. \<open>log_intensities\<close> is the loop over the events after the
  first, carrying the previous event time and the previous \<open>A[i - 1]\<close>.
\<close>

fun log_intensities :: "real \<Rightarrow> real \<Rightarrow> real \<Rightarrow> real \<Rightarrow> real \<Rightarrow> real list \<Rightarrow> real" where
  "log_intensities l a b t_prev A_prev [] = 0"
| "log_intensities l a b t_prev A_prev (t # ts) =
     (let A = exp (- b * (t - t_prev)) * (1 + A_prev)
      in ln (l + a * A) + log_intensities l a b t A ts)"

definition hawkes_neg_log_likelihood :: "real list \<Rightarrow> real \<Rightarrow> real \<times> real \<times> real \<Rightarrow> real" where
  "hawkes_neg_log_likelihood event_times T_max x =
     (case x of (l, a, b) \<Rightarrow>
        if l \<le> 0 \<or> a \<le> 0 \<or> b \<le> 0 then 10 ^ 10
        else if a \<ge> b then 10 ^ 10
        else
          let ll = (case event_times of
                      [] \<Rightarrow> 0
                    | t0 # ts \<Rightarrow> ln (l + a * 0) + log_intensities l a b t0 0 ts);
              compensator =
                l * T_max + (\<Sum>ti\<leftarrow>event_times. (a / b) * (1 - exp (- b * (T_max - ti))))
          in - (ll - compensator))"

text \<open>
  \<open>_fit_mle\<close>: \<open>scipy.optimize.minimize\<close> (L-BFGS-B with the lower bounds \<open>1e-6\<close>) is the
  parameter \<open>lbfgsb\<close>, given the objective and the initial guess; its point is returned as
  it is. \<open>n / T_max\<close> raises for a Python zero (for a numpy zero it is \<open>inf\<close>).
\<close>

definition fit_mle ::
  "((real \<times> real \<times> real \<Rightarrow> real) \<Rightarrow> real \<times> real \<times> real \<Rightarrow> real \<times> real \<times> real) \<Rightarrow>
   real list \<Rightarrow> real \<Rightarrow> error + HawkesParams" where
  "fit_mle lbfgsb event_times T_max =
     (if T_max = 0 then Inl ZeroDivisionError
      else
        let n = real (length event_times);
            mean_rate = n / T_max;
            x0 = (mean_rate * 0.5, mean_rate * 0.3, 1);
            result = lbfgsb (hawkes_neg_log_likelihood event_times T_max) x0
        in Inr \<lparr>lambda0 = fst result, alpha = fst (snd result), beta = snd (snd result)\<rparr>)"

text \<open>
  \<open>_fit_em\<close>. \<open>em_P\<close> is the entry \<open>P[i, j]\<close> for \<open>j < i\<close> after the E-step (the other
  entries stay 0): the kernel, divided by the row's \<open>denom\<close> when that is positive.
\<close>

definition em_kernel :: "real \<Rightarrow> real \<Rightarrow> real list \<Rightarrow> nat \<Rightarrow> nat \<Rightarrow> real" where
  "em_kernel a b event_times i j = a * exp (- b * (event_times ! i - event_times ! j))"

definition em_denom :: "real \<Rightarrow> real \<Rightarrow> real \<Rightarrow> real list \<Rightarrow> nat \<Rightarrow> real" where
  "em_denom l a b event_times i = l + (\<Sum>j\<leftarrow>[0..<i]. em_kernel a b event_times i j)"

definition em_P :: "real \<Rightarrow> real \<Rightarrow> real \<Rightarrow> real list \<Rightarrow> nat \<Rightarrow> nat \<Rightarrow> real" where
  "em_P l a b event_times i j =
     (if em_denom l a b event_times i > 0
      then em_kernel a b event_times i j / em_denom l a b event_times i
      else em_kernel a b event_times i j)"

definition em_step :: "real list \<Rightarrow> real \<Rightarrow> real \<times> real \<times> real \<Rightarrow> real \<times> real \<times> real" where
  "em_step event_times T_max x =
     (case x of (l, a, b) \<Rightarrow>
        let n = length event_times;
            sum_P = (\<Sum>i\<leftarrow>[0..<n]. \<Sum>j\<leftarrow>[0..<i]. em_P l a b event_times i j);
            lambda0_new = (real n - sum_P) / T_max
        in if sum_P > 0 then
             let weighted_sum =
                   (\<Sum>i\<leftarrow>[0..<n]. \<Sum>j\<leftarrow>[0..<i].
                      em_P l a b event_times i j * (event_times ! i - event_times ! j));
                 beta_new = (if weighted_sum > 0 then sum_P / weighted_sum else b);
                 alpha_new = sum_P / real n * beta_new
             in (lambda0_new, alpha_new, beta_new)
           else (lambda0_new, a, b))"

definition em_converged :: "real \<times> real \<times> real \<Rightarrow> real \<times> real \<times> real \<Rightarrow> bool" where
  "em_converged x x_new =
     (case x of (l, a, b) \<Rightarrow> case x_new of (l_new, a_new, b_new) \<Rightarrow>
        \<bar>l_new - l\<bar> < 1 / 10 ^ 6 \<and> \<bar>a_new - a\<bar> < 1 / 10 ^ 6 \<and> \<bar>b_new - b\<bar> < 1 / 10 ^ 6)"

text \<open>
  The loop \<open>for _ in range(max_iter)\<close>: on convergence it breaks before the assignment,
  so the values of the previous iteration are returned.
\<close>

fun em_loop :: "real list \<Rightarrow> real \<Rightarrow> nat \<Rightarrow> real \<times> real \<times> real \<Rightarrow> real \<times> real \<times> real" where
  "em_loop event_times T_max 0 x = x"
| "em_loop event_times T_max (Suc k) x =
     (let x_new = em_step event_times T_max x
      in if em_converged x x_new then x else em_loop event_times T_max k x_new)"

definition fit_em :: "real list \<Rightarrow> real \<Rightarrow> nat \<Rightarrow> error + HawkesParams" where
  "fit_em event_times T_max max_iter =
     (if T_max = 0 then Inl ZeroDivisionError
      else
        let n = real (length event_times);
            mean_rate = n / T_max;
            result = em_loop event_times T_max max_iter (mean_rate * 0.5, mean_rate * 0.3, 1)
        in Inr \<lparr>lambda0 = fst result, alpha = fst (snd result), beta = snd (snd result)\<rparr>)"

text \<open>\<open>HawkesProcess.fit\<close>, returning the fitted process.\<close>

definition hawkes_fit ::
  "((real \<times> real \<times> real \<Rightarrow> real) \<Rightarrow> real \<times> real \<times> real \<Rightarrow> real \<times> real \<times> real) \<Rightarrow>
   real list \<Rightarrow> real option \<Rightarrow> string \<Rightarrow> error + HawkesProcess" where
  "hawkes_fit lbfgsb event_times T_max method =
     (let event_times' = sort event_times in
      if length event_times' < 3 then
        Inl (ValueError (InsufficientEvents (length event_times')))
      else
        let T = (case T_max of None \<Rightarrow> last event_times' * 1.1 | Some t \<Rightarrow> t);
            fitted = (\<lambda>r. case r of
                        Inl e \<Rightarrow> Inl e
                      | Inr p \<Rightarrow> Inr \<lparr>params = Some p, hawkes_event_times = event_times',
                                      hawkes_T_max = T\<rparr>)
        in if method = ''mle'' then fitted (fit_mle lbfgsb event_times' T)
           else if method = ''em'' then fitted (fit_em event_times' T 100)
           else Inl (ValueError (UnknownMethod method)))"

text \<open>
  \<open>HawkesProcess.intensity\<close>: \<open>intensity_at\<close> is its body once \<open>params\<close> is known to be
  set.
\<close>

definition intensity_at :: "HawkesParams \<Rightarrow> real \<Rightarrow> real list \<Rightarrow> real" where
  "intensity_at p t event_times =
     (let past_events = filter (\<lambda>ti. ti < t) event_times
      in fold (\<lambda>ti acc. acc + alpha p * exp (- HawkesParams.beta p * (t - ti)))
           past_events (lambda0 p))"

definition intensity :: "HawkesProcess \<Rightarrow> real \<Rightarrow> real list option \<Rightarrow> error + real" where
  "intensity hp t event_times =
     (case params hp of
        None \<Rightarrow> Inl (ValueError NotFitted)
      | Some p \<Rightarrow>
          Inr (intensity_at p t
                 (case event_times of None \<Rightarrow> hawkes_event_times hp | Some e \<Rightarrow> e)))"

text \<open>
  The thinning loop of \<open>HawkesProcess.simulate\<close>, \<open>while t < T\<close>, entered with \<open>params\<close>
  set. It need not end, so not returning is the value \<open>None\<close>. \<open>1 / lambda_bar\<close> at zero
  is an error of the model (a Python float raises there; a numpy float gives \<open>inf\<close>).
\<close>

partial_function (option) thinning_loop ::
  "'g Generator \<Rightarrow> HawkesParams \<Rightarrow> real \<Rightarrow> real \<Rightarrow> real \<Rightarrow> real list \<Rightarrow> 'g \<Rightarrow>
   (error + real list) option" where
  "thinning_loop G p T t lambda_bar events rng =
     (if t < T then
        (if lambda_bar = 0 then Some (Inl ZeroDivisionError)
         else
           case rng_exponential G (1 / lambda_bar) rng of
             Inl e \<Rightarrow> Some (Inl e)
           | Inr (dt, rng1) \<Rightarrow>
               let t' = t + dt in
               if t' \<ge> T then Some (Inr events)
               else
                 let lambda_t = intensity_at p t' events in
                 (case uniform G rng1 of (u, rng2) \<Rightarrow>
                    if u < lambda_t / lambda_bar then
                      thinning_loop G p T t' (max lambda_bar (lambda_t + alpha p))
                        (events @ [t']) rng2
                    else thinning_loop G p T t' lambda_bar events rng2))
      else Some (Inr events))"

text \<open>
  \<open>HawkesProcess.simulate\<close>: the events of the history that are negative come first; only
  the events \<open>\<ge> 0\<close> are returned.
\<close>

definition hawkes_simulate ::
  "'g Generator \<Rightarrow> 'g \<Rightarrow> HawkesProcess \<Rightarrow> real \<Rightarrow> nat option \<Rightarrow> real list option \<Rightarrow>
   (error + real list) option" where
  "hawkes_simulate G entropy hp T seed event_history =
     (case params hp of
        None \<Rightarrow> Some (Inl (ValueError NotFitted))
      | Some p \<Rightarrow>
          let rng = default_rng G entropy seed;
              events = (case event_history of None \<Rightarrow> [] | Some h \<Rightarrow> filter (\<lambda>e. e < 0) h);
              lambda_bar = (case branching_ratio p of
                              None \<Rightarrow> 100
                            | Some br \<Rightarrow> if br < 1 then lambda0 p / (1 - br) else 100)
          in (case thinning_loop G p T 0 lambda_bar events rng of
                None \<Rightarrow> None
              | Some (Inl e) \<Rightarrow> Some (Inl e)
              | Some (Inr evs) \<Rightarrow> Some (Inr (filter (\<lambda>e. e \<ge> 0) evs))))"

section \<open>Hazard calibrator (calibration/hazard.py)\<close>

text \<open>
  A dictionary keyed by tenor is a map \<open>int \<rightharpoonup> real\<close>. The two dictionaries of models hold
  \<open>None\<close> for a regime without a model, which is also what \<open>.get\<close> returns for a missing
  key.
\<close>

record RegimeCurveSet =
  peril_id :: string
  calm :: HazardCurve
  volatile :: HazardCurve
  crisis :: HazardCurve
  min_premium_bps :: int
  max_multiplier_bps :: int

record HazardCalibrator =
  trigger_threshold :: real
  trigger_duration_hours :: int
  seed :: nat
  evt_models :: "RegimeKind \<Rightarrow> EVTModel option"
  hawkes_models :: "RegimeKind \<Rightarrow> HawkesProcess option"
  fitted :: bool

type_synonym nelder_mead = "(real \<times> real \<Rightarrow> real) \<Rightarrow> real \<times> real \<Rightarrow> real \<times> real"
type_synonym lbfgsb =
  "(real \<times> real \<times> real \<Rightarrow> real) \<Rightarrow> real \<times> real \<times> real \<Rightarrow> real \<times> real \<times> real"

text \<open>
  One round of the loop of \<open>HazardCalibrator.fit\<close>. \<open>except ValueError\<close> turns a
  \<open>ValueError\<close> of a fit into \<open>None\<close>; any other error propagates.
\<close>

definition regime_mask :: "int list \<Rightarrow> RegimeKind \<Rightarrow> bool list" where
  "regime_mask regimes r = map (\<lambda>v. v = regime_value r) regimes"

definition caught :: "error + 'a \<Rightarrow> error + 'a option" where
  "caught res =
     (case res of
        Inr v \<Rightarrow> Inr (Some v)
      | Inl (ValueError _) \<Rightarrow> Inr None
      | Inl e \<Rightarrow> Inl e)"

definition fit_regime ::
  "nelder_mead \<Rightarrow> lbfgsb \<Rightarrow> real list \<Rightarrow> real list \<Rightarrow> int list \<Rightarrow> real \<Rightarrow>
   HazardCalibrator \<Rightarrow> RegimeKind \<Rightarrow> error + HazardCalibrator" where
  "fit_regime nm lb depeg_magnitudes event_times regimes observation_period_days st r =
     (let msk = regime_mask regimes r in
      if length (filter id msk) < 5 then
        Inr (st\<lparr>evt_models := (evt_models st)(r := None),
                hawkes_models := (hawkes_models st)(r := None)\<rparr>)
      else
        case np_mask depeg_magnitudes msk of
          Inl e \<Rightarrow> Inl e
        | Inr mags \<Rightarrow>
            (case caught (evt_fit nm mags 0.9 ''mle'') of
               Inl e \<Rightarrow> Inl e
             | Inr evt \<Rightarrow>
                 (case np_mask event_times msk of
                    Inl e \<Rightarrow> Inl e
                  | Inr regime_times \<Rightarrow>
                      (case caught (hawkes_fit lb regime_times
                                      (Some observation_period_days) ''mle'') of
                         Inl e \<Rightarrow> Inl e
                       | Inr hawkes \<Rightarrow>
                           Inr (st\<lparr>evt_models := (evt_models st)(r := evt),
                                   hawkes_models := (hawkes_models st)(r := hawkes)\<rparr>)))))"

text \<open>\<open>HazardCalibrator.fit\<close>: the three regimes in order, then \<open>_fitted = True\<close>.\<close>

fun fit_regimes ::
  "nelder_mead \<Rightarrow> lbfgsb \<Rightarrow> real list \<Rightarrow> real list \<Rightarrow> int list \<Rightarrow> real \<Rightarrow>
   HazardCalibrator \<Rightarrow> RegimeKind list \<Rightarrow> error + HazardCalibrator" where
  "fit_regimes nm lb depeg_magnitudes event_times regimes obs st [] = Inr st"
| "fit_regimes nm lb depeg_magnitudes event_times regimes obs st (r # rs) =
     (case fit_regime nm lb depeg_magnitudes event_times regimes obs st r of
        Inl e \<Rightarrow> Inl e
      | Inr st' \<Rightarrow> fit_regimes nm lb depeg_magnitudes event_times regimes obs st' rs)"

definition calibrator_fit ::
  "nelder_mead \<Rightarrow> lbfgsb \<Rightarrow> HazardCalibrator \<Rightarrow> real list \<Rightarrow> real list \<Rightarrow> int list \<Rightarrow> real \<Rightarrow>
   error + HazardCalibrator" where
  "calibrator_fit nm lb st depeg_magnitudes event_times regimes observation_period_days =
     (case fit_regimes nm lb depeg_magnitudes event_times regimes observation_period_days st
             [CALM, VOLATILE, CRISIS] of
        Inl e \<Rightarrow> Inl e
      | Inr st' \<Rightarrow> Inr (st'\<lparr>fitted := True\<rparr>))"

text \<open>The hard-coded rates of \<open>_simulate_hazards\<close>.\<close>

fun base_rates :: "RegimeKind \<Rightarrow> (int \<rightharpoonup> real)" where
  "base_rates CALM = [7 \<mapsto> 0.0001, 30 \<mapsto> 0.0005, 90 \<mapsto> 0.0015]"
| "base_rates VOLATILE = [7 \<mapsto> 0.0005, 30 \<mapsto> 0.0025, 90 \<mapsto> 0.008]"
| "base_rates CRISIS = [7 \<mapsto> 0.002, 30 \<mapsto> 0.01, 90 \<mapsto> 0.035]"

text \<open>
  The body of \<open>for event_time in event_times\<close>: the state is the generator and the
  dictionary \<open>triggered\<close>, whose keys are the tenors (so it is a total function here,
  read and written at tenors only).
\<close>

definition mark_triggered :: "int list \<Rightarrow> real \<Rightarrow> (int \<Rightarrow> bool) \<Rightarrow> (int \<Rightarrow> bool)" where
  "mark_triggered tenors event_time triggered =
     fold (\<lambda>tenor tr. if event_time \<le> real_of_int tenor then tr(tenor := True) else tr)
       tenors triggered"

definition sample_magnitude ::
  "'g Generator \<Rightarrow> 'g \<Rightarrow> EVTModel \<Rightarrow> 'g \<Rightarrow> error + real \<times> 'g" where
  "sample_magnitude G entropy evt rng =
     (case integers G rng of (seed1, rng1) \<Rightarrow>
      case evt_simulate G entropy evt 1 (Some seed1) of
        Inl e \<Rightarrow> Inl e
      | Inr probe \<Rightarrow>
          if length probe > 0 then
            (case integers G rng1 of (seed2, rng2) \<Rightarrow>
             case evt_simulate G entropy evt 1 (Some seed2) of
               Inl e \<Rightarrow> Inl e
             | Inr [] \<Rightarrow> Inl IndexError
             | Inr (m # _) \<Rightarrow> Inr (m, rng2))
          else Inr (0, rng1))"

definition simulate_event ::
  "'g Generator \<Rightarrow> 'g \<Rightarrow> HazardCalibrator \<Rightarrow> EVTModel \<Rightarrow> int list \<Rightarrow> real \<Rightarrow>
   'g \<times> (int \<Rightarrow> bool) \<Rightarrow> error + 'g \<times> (int \<Rightarrow> bool)" where
  "simulate_event G entropy st evt tenors event_time s =
     (case s of (rng, triggered) \<Rightarrow>
      case sample_magnitude G entropy evt rng of
        Inl e \<Rightarrow> Inl e
      | Inr (magnitude_bps, rng2) \<Rightarrow>
          let depeg_price = 1 - magnitude_bps / 10000 in
          if depeg_price < trigger_threshold st then
            let mean_duration = 24 * (1 + magnitude_bps / 500) in
            (case rng_exponential G mean_duration rng2 of
               Inl e \<Rightarrow> Inl e
             | Inr (duration_hours, rng3) \<Rightarrow>
                 if duration_hours \<ge> real_of_int (trigger_duration_hours st) then
                   Inr (rng3, mark_triggered tenors event_time triggered)
                 else Inr (rng3, triggered))
          else Inr (rng2, triggered))"

fun simulate_events ::
  "'g Generator \<Rightarrow> 'g \<Rightarrow> HazardCalibrator \<Rightarrow> EVTModel \<Rightarrow> int list \<Rightarrow> real list \<Rightarrow>
   'g \<times> (int \<Rightarrow> bool) \<Rightarrow> error + 'g \<times> (int \<Rightarrow> bool)" where
  "simulate_events G entropy st evt tenors [] s = Inr s"
| "simulate_events G entropy st evt tenors (event_time # rest) s =
     (case simulate_event G entropy st evt tenors event_time s of
        Inl e \<Rightarrow> Inl e
      | Inr s' \<Rightarrow> simulate_events G entropy st evt tenors rest s')"

text \<open>
  One round of \<open>for _ in range(n_simulations)\<close>: a simulated path and the update of
  \<open>trigger_counts\<close> (one increment for each entry of \<open>tenors\<close> that is triggered).
\<close>

definition py_max :: "int list \<Rightarrow> error + int" where
  "py_max xs =
     (case xs of [] \<Rightarrow> Inl (ValueError EmptySequence) | x # rest \<Rightarrow> Inr (fold max rest x))"

definition count_triggers :: "int list \<Rightarrow> (int \<Rightarrow> bool) \<Rightarrow> (int \<Rightarrow> nat) \<Rightarrow> (int \<Rightarrow> nat)" where
  "count_triggers tenors triggered trigger_counts =
     fold (\<lambda>tenor c. if triggered tenor then c(tenor := c tenor + 1) else c)
       tenors trigger_counts"

definition simulate_path ::
  "'g Generator \<Rightarrow> 'g \<Rightarrow> HazardCalibrator \<Rightarrow> EVTModel \<Rightarrow> HawkesProcess \<Rightarrow> int list \<Rightarrow>
   'g \<times> (int \<Rightarrow> nat) \<Rightarrow> (error + 'g \<times> (int \<Rightarrow> nat)) option" where
  "simulate_path G entropy st evt hawkes tenors s =
     (case s of (rng, trigger_counts) \<Rightarrow>
      case py_max tenors of
        Inl e \<Rightarrow> Some (Inl e)
      | Inr max_tenor \<Rightarrow>
          (case integers G rng of (seed0, rng0) \<Rightarrow>
           case hawkes_simulate G entropy hawkes (real_of_int max_tenor) (Some seed0) None of
             None \<Rightarrow> None
           | Some (Inl e) \<Rightarrow> Some (Inl e)
           | Some (Inr event_times) \<Rightarrow>
               (case simulate_events G entropy st evt tenors event_times (rng0, \<lambda>t. False) of
                  Inl e \<Rightarrow> Some (Inl e)
                | Inr (rng', triggered) \<Rightarrow>
                    Some (Inr (rng', count_triggers tenors triggered trigger_counts)))))"

fun simulate_paths ::
  "'g Generator \<Rightarrow> 'g \<Rightarrow> HazardCalibrator \<Rightarrow> EVTModel \<Rightarrow> HawkesProcess \<Rightarrow> int list \<Rightarrow>
   nat \<Rightarrow> 'g \<times> (int \<Rightarrow> nat) \<Rightarrow> (error + 'g \<times> (int \<Rightarrow> nat)) option" where
  "simulate_paths G entropy st evt hawkes tenors 0 s = Some (Inr s)"
| "simulate_paths G entropy st evt hawkes tenors (Suc k) s =
     (case simulate_path G entropy st evt hawkes tenors s of
        None \<Rightarrow> None
      | Some (Inl e) \<Rightarrow> Some (Inl e)
      | Some (Inr s') \<Rightarrow> simulate_paths G entropy st evt hawkes tenors k s')"

text \<open>
  \<open>_simulate_hazards\<close>. The generator is seeded with \<open>seed + regime.value\<close>. \<open>range\<close> of a
  negative count is empty; \<open>trigger_counts[t] / n_simulations\<close> raises at zero.
\<close>

definition simulate_hazards ::
  "'g Generator \<Rightarrow> 'g \<Rightarrow> HazardCalibrator \<Rightarrow> RegimeKind \<Rightarrow> int list \<Rightarrow> int \<Rightarrow>
   (error + (int \<rightharpoonup> real)) option" where
  "simulate_hazards G entropy st r tenors n_sims =
     (let rng = default_rng G entropy (Some (seed st + nat (regime_value r))) in
      case (evt_models st r, hawkes_models st r) of
        (Some evt, Some hawkes) \<Rightarrow>
          (case simulate_paths G entropy st evt hawkes tenors (nat n_sims) (rng, \<lambda>t. 0) of
             None \<Rightarrow> None
           | Some (Inl e) \<Rightarrow> Some (Inl e)
           | Some (Inr (rng', trigger_counts)) \<Rightarrow>
               if tenors \<noteq> [] \<and> n_sims = 0 then Some (Inl ZeroDivisionError)
               else Some (Inr (\<lambda>t. if t \<in> set tenors
                                    then Some (real (trigger_counts t) / real_of_int n_sims)
                                    else None)))
      | _ \<Rightarrow> Some (Inr (base_rates r)))"

text \<open>
  \<open>_build_curve\<close>. A tenor that is not a key of \<open>hazards\<close>, and 7, 30 or 90 when it is not
  a tenor, raise \<open>KeyError\<close>.
\<close>

definition prob_to_hazard :: "real \<Rightarrow> real" where
  "prob_to_hazard p = (if p \<ge> 1 then 10 else if p \<le> 0 then 0 else - ln (1 - p))"

definition build_curve :: "RegimeKind \<Rightarrow> int list \<Rightarrow> (int \<rightharpoonup> real) \<Rightarrow> error + HazardCurve" where
  "build_curve r tenors hazards =
     (case filter (\<lambda>t. hazards t = None) tenors of
        t # _ \<Rightarrow> Inl (KeyError t)
      | [] \<Rightarrow>
          let H = (\<lambda>t. if t \<in> set tenors then map_option prob_to_hazard (hazards t) else None);
              SCALE = (10::real) ^ 18
          in case H 7 of
               None \<Rightarrow> Inl (KeyError 7)
             | Some h7 \<Rightarrow>
                 (case H 30 of
                    None \<Rightarrow> Inl (KeyError 30)
                  | Some h30 \<Rightarrow>
                      (case H 90 of
                         None \<Rightarrow> Inl (KeyError 90)
                       | Some h90 \<Rightarrow>
                           Inr \<lparr>regime = r,
                                H_7d = py_int (h7 * SCALE),
                                H_30d = py_int (h30 * SCALE),
                                H_90d = py_int (h90 * SCALE),
                                tail_slope = py_int (((h90 - h30) / 60) * 1.1 * SCALE),
                                calibration_date = [],
                                n_simulations = int (card (dom hazards))\<rparr>)))"

text \<open>\<open>HazardCalibrator.calibrate\<close>.\<close>

definition calibrate_regime ::
  "'g Generator \<Rightarrow> 'g \<Rightarrow> HazardCalibrator \<Rightarrow> int list \<Rightarrow> int \<Rightarrow> RegimeKind \<Rightarrow>
   (error + HazardCurve) option" where
  "calibrate_regime G entropy st tenors n_sims r =
     (case simulate_hazards G entropy st r tenors n_sims of
        None \<Rightarrow> None
      | Some (Inl e) \<Rightarrow> Some (Inl e)
      | Some (Inr hazards) \<Rightarrow> Some (build_curve r tenors hazards))"

definition calibrate ::
  "'g Generator \<Rightarrow> 'g \<Rightarrow> HazardCalibrator \<Rightarrow> int list \<Rightarrow> int \<Rightarrow> string \<Rightarrow>
   (error + RegimeCurveSet) option" where
  "calibrate G entropy st tenors n_sims peril =
     (if \<not> fitted st then Some (Inl (ValueError NotFitted))
      else
        case calibrate_regime G entropy st tenors n_sims CALM of
          None \<Rightarrow> None
        | Some (Inl e) \<Rightarrow> Some (Inl e)
        | Some (Inr c_calm) \<Rightarrow>
            (case calibrate_regime G entropy st tenors n_sims VOLATILE of
               None \<Rightarrow> None
             | Some (Inl e) \<Rightarrow> Some (Inl e)
             | Some (Inr c_volatile) \<Rightarrow>
                 (case calibrate_regime G entropy st tenors n_sims CRISIS of
                    None \<Rightarrow> None
                  | Some (Inl e) \<Rightarrow> Some (Inl e)
                  | Some (Inr c_crisis) \<Rightarrow>
                      Some (Inr \<lparr>peril_id = peril, calm = c_calm, volatile = c_volatile,
                                 crisis = c_crisis, min_premium_bps = 25,
                                 max_multiplier_bps = 30000\<rparr>))))"

section \<open>Curve validator (calibration/validation.py)\<close>

text \<open>
  The payout curve dictionary with its three keys. Its two divisors are numbers within the
  float range (the defaults are the ints 3000 and 168), read as reals. The exponent is a
  natural number (the default is 2), so \<open>**\<close> is \<open>^\<close>.
\<close>

record PayoutCurve =
  max_deviation_bps :: real
  threshold_hours :: real
  severity_exponent :: nat

record CurveValidator =
  payout_curve :: PayoutCurve
  tolerance :: real

text \<open>
  The warnings, each standing for its message: \<open>NotMonotonic\<close> is
  "Hazard curve is not monotonically increasing"; \<open>HighBrierScore b\<close> is
  "High Brier score: b"; \<open>DriftExceedsTolerance d t\<close> is
  "Calibration drift d exceeds tolerance t".
\<close>

datatype warning =
    NotMonotonic
  | HighBrierScore real
  | DriftExceedsTolerance real real

record ValidationResult =
  is_valid :: bool
  monotonicity_check :: bool
  brier_score :: real
  calibration_drift :: real
  expected_loss_ratio :: real
  warnings :: "warning list"

definition check_monotonicity :: "HazardCurve \<Rightarrow> bool" where
  "check_monotonicity curve = (H_7d curve \<le> H_30d curve \<and> H_30d curve \<le> H_90d curve)"

text \<open>
  \<open>_compute_brier_score\<close>: \<open>historical_events\<close> is a two-column array, a list of rows;
  \<open>historical_events[:, 0]\<close> is the first column. \<open>brier_error\<close> is one round of the loop
  over the tenors 7, 30, 90; \<open>curve.interpolate(tenor) / SCALE\<close> divides two ints.
\<close>

definition brier_error :: "HazardCurve \<Rightarrow> (real \<times> real) list \<Rightarrow> int \<Rightarrow> error + real" where
  "brier_error curve historical_events tenor =
     (case py_true_div (interpolate curve tenor) (10 ^ 18) of
        Inl e \<Rightarrow> Inl e
      | Inr H \<Rightarrow>
          let predicted_prob = 1 - exp (- H);
              actual_rate =
                (if length historical_events > 0
                 then real (length (filter (\<lambda>row. fst row \<le> real_of_int tenor)
                                      historical_events))
                        / real (length historical_events)
                 else 0)
          in Inr ((predicted_prob - actual_rate)\<^sup>2))"

definition compute_brier_score :: "HazardCurve \<Rightarrow> (real \<times> real) list \<Rightarrow> error + real" where
  "compute_brier_score curve historical_events =
     (case brier_error curve historical_events 7 of
        Inl e \<Rightarrow> Inl e
      | Inr e7 \<Rightarrow>
          (case brier_error curve historical_events 30 of
             Inl e \<Rightarrow> Inl e
           | Inr e30 \<Rightarrow>
               (case brier_error curve historical_events 90 of
                  Inl e \<Rightarrow> Inl e
                | Inr e90 \<Rightarrow> Inr (np_mean [e7, e30, e90]))))"

text \<open>\<open>_calculate_payout\<close>: Python's \<open>/\<close> raises on a zero divisor.\<close>

definition calculate_payout :: "CurveValidator \<Rightarrow> real \<Rightarrow> real \<Rightarrow> real \<Rightarrow> error + real" where
  "calculate_payout v policy_limit depeg_bps duration_hours =
     (let pc = payout_curve v in
      if max_deviation_bps pc = 0 then Inl ZeroDivisionError
      else
        let raw_factor = min (depeg_bps / max_deviation_bps pc) 1;
            severity_factor = raw_factor ^ severity_exponent pc
        in if threshold_hours pc = 0 then Inl ZeroDivisionError
           else
             let duration_factor = min (duration_hours / threshold_hours pc) 1
             in Inr (policy_limit * severity_factor * duration_factor))"

text \<open>
  The loop of \<open>_check_expected_loss\<close>, \<open>for _ in range(n_simulations)\<close>, carrying the
  generator and the list \<open>simulated_payouts\<close>.
\<close>

fun simulate_payouts ::
  "'g Generator \<Rightarrow> CurveValidator \<Rightarrow> real \<Rightarrow> real \<Rightarrow> nat \<Rightarrow> 'g \<Rightarrow> real list \<Rightarrow>
   error + real list" where
  "simulate_payouts G v policy_limit trigger_prob 0 rng simulated_payouts = Inr simulated_payouts"
| "simulate_payouts G v policy_limit trigger_prob (Suc k) rng simulated_payouts =
     (case uniform G rng of (u, rng1) \<Rightarrow>
        if u < trigger_prob then
          (case exponential G 500 rng1 of (d, rng2) \<Rightarrow>
             let depeg_bps = min d (max_deviation_bps (payout_curve v)) in
             case exponential G 48 rng2 of (h, rng3) \<Rightarrow>
               let duration_hours = min h (threshold_hours (payout_curve v) * 2) in
               case calculate_payout v policy_limit depeg_bps duration_hours of
                 Inl e \<Rightarrow> Inl e
               | Inr payout \<Rightarrow>
                   simulate_payouts G v policy_limit trigger_prob k rng3
                     (simulated_payouts @ [payout]))
        else simulate_payouts G v policy_limit trigger_prob k rng1 (simulated_payouts @ [0]))"

text \<open>
  \<open>_check_expected_loss\<close>, returning \<open>(el_ratio, drift)\<close>.
  \<open>curve.interpolate(tenor) / SCALE\<close> divides two ints. \<open>np.mean\<close> of no payouts is nan,
  and \<open>nan > 0\<close> is false.
\<close>

definition check_expected_loss ::
  "'g Generator \<Rightarrow> CurveValidator \<Rightarrow> HazardCurve \<Rightarrow> int \<Rightarrow> error + real \<times> real" where
  "check_expected_loss G v curve n_sims =
     (let rng = seeded G 42;
          policy_limit = 100000;
          tenor = 30
      in case py_true_div (interpolate curve tenor) (10 ^ 18) of
           Inl e \<Rightarrow> Inl e
         | Inr H \<Rightarrow>
             let curve_el = policy_limit * H;
                 trigger_prob = 1 - exp (- H)
             in case simulate_payouts G v policy_limit trigger_prob (nat n_sims) rng [] of
                  Inl e \<Rightarrow> Inl e
                | Inr simulated_payouts \<Rightarrow>
                    if simulated_payouts \<noteq> [] \<and> np_mean simulated_payouts > 0 then
                      let el_ratio = curve_el / np_mean simulated_payouts
                      in Inr (el_ratio, \<bar>el_ratio - 1\<bar>)
                    else Inr (1, 0))"

text \<open>\<open>_validate_single_curve\<close>.\<close>

definition validate_single_curve ::
  "'g Generator \<Rightarrow> CurveValidator \<Rightarrow> HazardCurve \<Rightarrow> (real \<times> real) list option \<Rightarrow> int \<Rightarrow>
   error + ValidationResult" where
  "validate_single_curve G v curve historical_events n_sims =
     (let monotonic = check_monotonicity curve;
          warnings1 = (if \<not> monotonic then [NotMonotonic] else [])
      in case (case historical_events of
                 None \<Rightarrow> Inr 0
               | Some events \<Rightarrow> compute_brier_score curve events) of
           Inl e \<Rightarrow> Inl e
         | Inr brier \<Rightarrow>
             let warnings2 = (if historical_events \<noteq> None \<and> brier > 0.1
                              then warnings1 @ [HighBrierScore brier] else warnings1)
             in case check_expected_loss G v curve n_sims of
                  Inl e \<Rightarrow> Inl e
                | Inr (el_ratio, drift) \<Rightarrow>
                    let warnings3 = (if drift > tolerance v
                                     then warnings2 @ [DriftExceedsTolerance drift (tolerance v)]
                                     else warnings2)
                    in Inr \<lparr>is_valid = (monotonic \<and> drift \<le> tolerance v),
                            monotonicity_check = monotonic,
                            brier_score = brier,
                            calibration_drift = drift,
                            expected_loss_ratio = el_ratio,
                            warnings = warnings3\<rparr>)"

text \<open>\<open>validate\<close>: the dictionary of results, in the order of its keys.\<close>

definition validate ::
  "'g Generator \<Rightarrow> CurveValidator \<Rightarrow> RegimeCurveSet \<Rightarrow> (real \<times> real) list option \<Rightarrow> int \<Rightarrow>
   error + (string \<times> ValidationResult) list" where
  "validate G v curves historical_events n_sims =
     (case validate_single_curve G v (calm curves) historical_events n_sims of
        Inl e \<Rightarrow> Inl e
      | Inr r_calm \<Rightarrow>
          (case validate_single_curve G v (volatile curves) historical_events n_sims of
             Inl e \<Rightarrow> Inl e
           | Inr r_volatile \<Rightarrow>
               (case validate_single_curve G v (crisis curves) historical_events n_sims of
                  Inl e \<Rightarrow> Inl e
                | Inr r_crisis \<Rightarrow>
                    Inr [(''CALM'', r_calm), (''VOLATILE'', r_volatile),
                         (''CRISIS'', r_crisis)])))"

section \<open>Event extraction (engine.py)\<close>

text \<open>
  \<open>RiskEngine._extract_events\<close>. The loop state is \<open>(in_event, event_start, event_max,
  events)\<close>; an event is the row \<open>[event_start, event_max]\<close>.
\<close>

definition extract_step ::
  "real \<Rightarrow> nat \<times> real \<Rightarrow> bool \<times> nat \<times> real \<times> (real \<times> real) list \<Rightarrow>
   bool \<times> nat \<times> real \<times> (real \<times> real) list" where
  "extract_step threshold_bps x s =
     (case x of (i, deviation) \<Rightarrow>
      case s of (in_event, event_start, event_max, events) \<Rightarrow>
        let is_depeg = (deviation > threshold_bps) in
        if is_depeg \<and> \<not> in_event then (True, i, deviation, events)
        else if is_depeg \<and> in_event then (in_event, event_start, max event_max deviation, events)
        else if \<not> is_depeg \<and> in_event then
          (False, event_start, event_max, events @ [(real event_start, event_max)])
        else s)"

definition extract_events :: "real list \<Rightarrow> real \<Rightarrow> (real \<times> real) list" where
  "extract_events prices threshold_bps =
     (let deviations = map (\<lambda>p. \<bar>1 - p\<bar> * 10000) prices;
          final = fold (extract_step threshold_bps) (enumerate 0 deviations) (False, 0, 0, [])
      in case final of (in_event, event_start, event_max, events) \<Rightarrow>
           let events' = (if in_event then events @ [(real event_start, event_max)] else events)
           in if events' \<noteq> [] then events' else [(0, 0)])"

section \<open>Regime classifier (models/regime.py)\<close>

text \<open>
  \<open>RegimeClassifier\<close>: \<open>fit\<close> with its k-means path (the default method) and
  \<open>classify\<close>. The libraries are parameters: the fitting of sklearn's \<open>StandardScaler\<close>
  (giving its \<open>mean_\<close> and \<open>scale_\<close>) and of \<open>KMeans\<close> (giving its \<open>cluster_centers_\<close>, in
  the order of sklearn's cluster labels), numpy's \<open>lstsq\<close> and scipy's multivariate normal
  density. The method \<open>_fit_hmm\<close> (Baum-Welch) is not modelled: it is a parameter of
  \<open>regime_fit\<close> as a whole.
\<close>

record StandardScaler =
  scaler_mean :: "real list"
  scaler_scale :: "real list"

text \<open>
  \<open>StandardScaler.transform\<close> of one row; sklearn raises \<open>ValueError\<close> when the row has
  not the scaler's number of features.
\<close>

definition scaler_transform :: "StandardScaler \<Rightarrow> real list \<Rightarrow> error + real list" where
  "scaler_transform sc x =
     (if length x \<noteq> length (scaler_mean sc) then Inl (ValueError ShapeMismatch)
      else Inr (map (\<lambda>(v, m, s). (v - m) / s) (zip x (zip (scaler_mean sc) (scaler_scale sc)))))"

text \<open>
  \<open>np.argmax\<close> and \<open>np.argmin\<close>: the first index of a largest (smallest) entry.
  \<open>np.argsort\<close>: the indices in ascending order of their entries (for equal entries the
  order is that of a stable sort).
\<close>

fun argmax_from :: "real list \<Rightarrow> nat \<Rightarrow> nat \<Rightarrow> real \<Rightarrow> nat" where
  "argmax_from [] i best best_value = best"
| "argmax_from (y # ys) i best best_value =
     (if y > best_value then argmax_from ys (Suc i) i y
      else argmax_from ys (Suc i) best best_value)"

definition np_argmax :: "real list \<Rightarrow> error + nat" where
  "np_argmax xs =
     (case xs of [] \<Rightarrow> Inl (ValueError EmptySequence) | x # rest \<Rightarrow> Inr (argmax_from rest 1 0 x))"

definition np_argmin :: "real list \<Rightarrow> error + nat" where
  "np_argmin xs = np_argmax (map uminus xs)"

definition np_argsort :: "real list \<Rightarrow> nat list" where
  "np_argsort xs = sort_key (\<lambda>i. xs ! i) [0..<length xs]"

text \<open>
  \<open>KMeans.transform\<close> of one row is its Euclidean distance to each centre;
  \<open>KMeans.predict\<close> is the index of the nearest centre. sklearn raises \<open>ValueError\<close> when
  the row has not the number of features of the centres.
\<close>

definition euclidean_distance :: "real list \<Rightarrow> real list \<Rightarrow> real" where
  "euclidean_distance x c = sqrt (\<Sum>(v, ci)\<leftarrow>zip x c. (v - ci)\<^sup>2)"

definition kmeans_transform :: "real list list \<Rightarrow> real list \<Rightarrow> error + real list" where
  "kmeans_transform centers x =
     (if list_ex (\<lambda>c. length c \<noteq> length x) centers then Inl (ValueError ShapeMismatch)
      else Inr (map (euclidean_distance x) centers))"

definition kmeans_predict :: "real list list \<Rightarrow> real list \<Rightarrow> error + nat" where
  "kmeans_predict centers x =
     (case kmeans_transform centers x of Inl e \<Rightarrow> Inl e | Inr distances \<Rightarrow> np_argmin distances)"

record RegimeState =
  state_regime :: RegimeKind
  confidence :: real
  state_features :: "real list"
  transition_probs :: "(RegimeKind \<times> real) list option"

text \<open>
  The classifier object: \<open>kmeans\<close> holds the cluster centres of \<open>_kmeans\<close>;
  \<open>classifier_fitted\<close> is \<open>_fitted\<close>. An attribute that is \<open>None\<close> is \<open>None\<close> here.
\<close>

record RegimeClassifier =
  n_regimes :: nat
  scaler :: StandardScaler
  classifier_fitted :: bool
  initial_probs :: "real list option"
  transition_matrix :: "real list list option"
  emission_means :: "real list list option"
  emission_covs :: "real list list list option"
  kmeans :: "real list list option"
  regime_order :: "nat list option"

text \<open>
  \<open>__init__\<close>: nothing is fitted. The scaler, not yet fitted, has no mean and no scale.
\<close>

definition regime_classifier_init :: "nat \<Rightarrow> RegimeClassifier" where
  "regime_classifier_init n =
     \<lparr>n_regimes = n,
      scaler = \<lparr>scaler_mean = [], scaler_scale = []\<rparr>,
      classifier_fitted = False,
      initial_probs = None,
      transition_matrix = None,
      emission_means = None,
      emission_covs = None,
      kmeans = None,
      regime_order = None\<rparr>"

text \<open>\<open>RegimeKind(idx)\<close> raises \<open>ValueError\<close> outside 0, 1, 2.\<close>

definition regime_of_index :: "nat \<Rightarrow> error + RegimeKind" where
  "regime_of_index i =
     (if i = 0 then Inr CALM else if i = 1 then Inr VOLATILE else if i = 2 then Inr CRISIS
      else Inl (ValueError (InvalidRegime i)))"

text \<open>
  \<open>_estimate_transition_matrix\<close>: the counts of consecutive labels among
  \<open>len(np.unique(labels))\<close> states, each row divided by its sum (by 1 when that is 0).
  A label that is not below the number of states is out of the array's bounds.
\<close>

definition estimate_transition_matrix :: "nat list \<Rightarrow> error + real list list" where
  "estimate_transition_matrix labels =
     (let n_states = card (set labels);
          pairs = zip (butlast labels) (tl labels)
      in if list_ex (\<lambda>(a, b). a \<ge> n_states \<or> b \<ge> n_states) pairs then Inl IndexError
         else
           let counts = map (\<lambda>i. map (\<lambda>j. real (length (filter (\<lambda>p. p = (i, j)) pairs)))
                                    [0..<n_states]) [0..<n_states];
               normalise = (\<lambda>row. let row_sum = sum_list row;
                                       divisor = (if row_sum = 0 then 1 else row_sum)
                                   in map (\<lambda>c. c / divisor) row)
           in Inr (map normalise counts))"

text \<open>
  \<open>_stationary_distribution\<close>: least squares on \<open>(P\<^sup>T - I)\<close> stacked over a row of
  ones, against \<open>(0, ..., 0, 1)\<close>; then clipped at 0 and divided by its sum (numpy does not
  raise when that sum is 0).
\<close>

type_synonym lstsq = "real list list \<Rightarrow> real list \<Rightarrow> real list"

definition stationary_distribution :: "lstsq \<Rightarrow> real list list \<Rightarrow> real list" where
  "stationary_distribution lstsq P =
     (let n = length P;
          A = map (\<lambda>i. map (\<lambda>j. P ! j ! i - (if i = j then 1 else 0)) [0..<n]) [0..<n]
                @ [replicate n 1];
          b = replicate n 0 @ [1];
          pi' = map (\<lambda>x. max x 0) (lstsq A b)
      in map (\<lambda>x. x / sum_list pi') pi')"

text \<open>
  \<open>_fit_kmeans\<close>: \<open>kmeans_fit\<close> is \<open>KMeans(n_clusters, random_state=42, n_init=10).fit\<close>,
  giving the cluster centres or sklearn's error; \<open>centers[:, 0]\<close> is the first coordinate
  of each centre. \<open>collect\<close> runs a list of computations up to the first that raises.
\<close>

type_synonym kmeans_fit = "nat \<Rightarrow> real list list \<Rightarrow> error + real list list"

fun collect :: "(error + 'a) list \<Rightarrow> error + 'a list" where
  "collect [] = Inr []"
| "collect (Inl e # rs) = Inl e"
| "collect (Inr v # rs) = (case collect rs of Inl e \<Rightarrow> Inl e | Inr vs \<Rightarrow> Inr (v # vs))"

definition fit_kmeans ::
  "kmeans_fit \<Rightarrow> lstsq \<Rightarrow> RegimeClassifier \<Rightarrow> real list list \<Rightarrow> error + RegimeClassifier" where
  "fit_kmeans km lstsq st features =
     (case km (n_regimes st) features of
        Inl e \<Rightarrow> Inl e
      | Inr centers \<Rightarrow>
          let order = np_argsort (map (\<lambda>c. c ! 0) centers)
          in case collect (map (kmeans_predict centers) features) of
               Inl e \<Rightarrow> Inl e
             | Inr labels_seq \<Rightarrow>
                 (case estimate_transition_matrix labels_seq of
                    Inl e \<Rightarrow> Inl e
                  | Inr T \<Rightarrow>
                      Inr (st\<lparr>kmeans := Some centers,
                              regime_order := Some order,
                              transition_matrix := Some T,
                              initial_probs := Some (stationary_distribution lstsq T)\<rparr>)))"

text \<open>
  \<open>RegimeClassifier.fit\<close>: the scaler is fitted on the features (\<open>scaler_fit\<close> is sklearn's
  \<open>StandardScaler.fit\<close>, giving the fitted scaler or sklearn's error), the scaled features
  go to the method chosen.
\<close>

definition regime_fit ::
  "(real list list \<Rightarrow> error + StandardScaler) \<Rightarrow> kmeans_fit \<Rightarrow> lstsq \<Rightarrow>
   (RegimeClassifier \<Rightarrow> real list list \<Rightarrow> error + RegimeClassifier) \<Rightarrow>
   RegimeClassifier \<Rightarrow> real list list \<Rightarrow> string \<Rightarrow> error + RegimeClassifier" where
  "regime_fit scaler_fit km lstsq fit_hmm st features method =
     (case scaler_fit features of
        Inl e \<Rightarrow> Inl e
      | Inr sc \<Rightarrow>
          let st1 = st\<lparr>scaler := sc\<rparr> in
          case collect (map (scaler_transform (scaler st1)) features) of
            Inl e \<Rightarrow> Inl e
          | Inr features_scaled \<Rightarrow>
              (case (if method = ''hmm'' then fit_hmm st1 features_scaled
                     else if method = ''kmeans'' then fit_kmeans km lstsq st1 features_scaled
                     else Inl (ValueError (UnknownMethod method))) of
                 Inl e \<Rightarrow> Inl e
               | Inr st2 \<Rightarrow> Inr (st2\<lparr>classifier_fitted := True\<rparr>)))"

text \<open>
  \<open>_emission_probability\<close>: \<open>pdf\<close> is \<open>scipy.stats.multivariate_normal.pdf\<close>, \<open>None\<close> when
  it raises \<open>LinAlgError\<close>.
\<close>

type_synonym mvn_pdf = "real list \<Rightarrow> real list \<Rightarrow> real list list \<Rightarrow> real option"

definition emission_probability ::
  "mvn_pdf \<Rightarrow> RegimeClassifier \<Rightarrow> real list \<Rightarrow> error + real list" where
  "emission_probability pdf st x =
     (case (emission_means st, emission_covs st) of
        (Some means, Some covs) \<Rightarrow>
          if length means < n_regimes st \<or> length covs < n_regimes st then Inl IndexError
          else
            let probs = map (\<lambda>k. case pdf x (means ! k) (covs ! k) of
                                    None \<Rightarrow> 1 / 10 ^ 10
                                  | Some v \<Rightarrow> v) [0..<n_regimes st]
            in if sum_list probs > 0 then Inr (map (\<lambda>p. p / sum_list probs) probs)
               else Inr (replicate (n_regimes st) (1 / real (n_regimes st)))
      | _ \<Rightarrow> Inl TypeError)"

text \<open>
  The dictionary \<open>transition_probs\<close> of \<open>classify\<close>, with its items in order:
  \<open>RegimeKind(order[j])\<close> against \<open>_transition_matrix[regime_idx, j]\<close>.
\<close>

definition transition_row ::
  "nat \<Rightarrow> real list list \<Rightarrow> nat list \<Rightarrow> nat \<Rightarrow> error + (RegimeKind \<times> real) list" where
  "transition_row n T order regime_idx =
     collect (map (\<lambda>j.
        if j \<ge> length order then Inl IndexError
        else case regime_of_index (order ! j) of
               Inl e \<Rightarrow> Inl e
             | Inr r \<Rightarrow>
                 if regime_idx \<ge> length T \<or> j \<ge> length (T ! regime_idx) then Inl IndexError
                 else Inr (r, T ! regime_idx ! j)) [0..<n])"

text \<open>
  \<open>classify\<close> of a feature vector (kept as it is in \<open>state_features\<close>). The label is
  \<open>_regime_order[np.argmax(probs)]\<close>: the entry of the order at the index of the most
  probable internal state.
\<close>

definition classify :: "mvn_pdf \<Rightarrow> RegimeClassifier \<Rightarrow> real list \<Rightarrow> error + RegimeState" where
  "classify pdf st features =
     (if \<not> classifier_fitted st then Inl (ValueError NotFitted)
      else
        case scaler_transform (scaler st) features of
          Inl e \<Rightarrow> Inl e
        | Inr features_scaled \<Rightarrow>
            (case (case kmeans st of
                     Some centers \<Rightarrow>
                       (case kmeans_transform centers features_scaled of
                          Inl e \<Rightarrow> Inl e
                        | Inr distances \<Rightarrow>
                            let probs = map (\<lambda>d. exp (- d)) distances
                            in Inr (map (\<lambda>p. p / sum_list probs) probs))
                   | None \<Rightarrow> emission_probability pdf st features_scaled) of
               Inl e \<Rightarrow> Inl e
             | Inr probs \<Rightarrow>
                 (case np_argmax probs of
                    Inl e \<Rightarrow> Inl e
                  | Inr k \<Rightarrow>
                      (case regime_order st of
                         None \<Rightarrow> Inl TypeError
                       | Some order \<Rightarrow>
                           if k \<ge> length order then Inl IndexError
                           else
                             let regime_idx = order ! k;
                                 confidence' = probs ! k
                             in case (case transition_matrix st of
                                        None \<Rightarrow> Inr None
                                      | Some T \<Rightarrow>
                                          map_sum id Some
                                            (transition_row (n_regimes st) T order regime_idx)) of
                                  Inl e \<Rightarrow> Inl e
                                | Inr tp \<Rightarrow>
                                    (case regime_of_index regime_idx of
                                       Inl e \<Rightarrow> Inl e
                                     | Inr r \<Rightarrow>
                                         Inr \<lparr>state_regime = r, confidence = confidence',
                                              state_features = features,
                                              transition_probs = tp\<rparr>)))))"

section \<open>Properties\<close>

subsection \<open>Interpolation\<close>

text \<open>
  C6. For every hazard curve with integer fields, the floor-division interpolation at the
  tenors 7, 30 and 90 returns exactly \<open>H_7d\<close>, \<open>H_30d\<close> and \<open>H_90d\<close>.
\<close>

theorem interpolate_at_knots:
  "interpolate c 7 = H_7d c \<and> interpolate c 30 = H_30d c \<and> interpolate c 90 = H_90d c"
  by (simp add: interpolate_def)

subsection \<open>Event extraction\<close>

lemma extract_step_quiet:
  "\<not> snd x > thr \<Longrightarrow> extract_step thr x (False, a, b, evs) = (False, a, b, evs)"
  by (cases x) (simp add: extract_step_def)

lemma fold_extract_quiet:
  "\<forall>x\<in>set xs. \<not> snd x > thr \<Longrightarrow>
   fold (extract_step thr) xs (False, a, b, evs) = (False, a, b, evs)"
  by (induction xs) (simp_all add: extract_step_quiet)

text \<open>
  C10. \<open>_extract_events\<close> never returns an empty list: when no day's absolute deviation
  from 1.0 (in bps) exceeds the threshold, it returns the single sentinel event
  \<open>(0, 0)\<close>.
\<close>

theorem extract_events_never_empty:
  "extract_events prices thr \<noteq> [] \<and>
   ((\<forall>p\<in>set prices. \<not> \<bar>1 - p\<bar> * 10000 > thr) \<longrightarrow> extract_events prices thr = [(0, 0)])"
proof (intro conjI impI)
  show "extract_events prices thr \<noteq> []"
    by (simp add: extract_events_def Let_def split: prod.splits)
next
  assume quiet: "\<forall>p\<in>set prices. \<not> \<bar>1 - p\<bar> * 10000 > thr"
  have "\<forall>x\<in>set (enumerate 0 (map (\<lambda>p. \<bar>1 - p\<bar> * 10000) prices)). \<not> snd x > thr"
    using quiet by (auto simp: enumerate_eq_zip dest!: set_zip_rightD)
  then show "extract_events prices thr = [(0, 0)]"
    by (simp add: extract_events_def fold_extract_quiet)
qed

theorem extract_events_never_empty_witness:
  "list_all (\<lambda>p. \<not> \<bar>1 - p\<bar> * 10000 > 100) [1, 0.995, 1.002::real] \<and>
   extract_events [1, 0.995, 1.002] 100 = [(0, 0)]"
  using extract_events_never_empty [of "[1, 0.995, 1.002]" 100] by simp

subsection \<open>Curve validator\<close>








subsection \<open>Hazard calibrator: determinism and default rates\<close>

lemma evt_simulate_seeded:
  "evt_simulate G e1 m n (Some s) = evt_simulate G e2 m n (Some s)"
  by (simp add: evt_simulate_def default_rng_def cong: option.case_cong sum.case_cong prod.case_cong list.case_cong if_cong)

lemma hawkes_simulate_seeded:
  "hawkes_simulate G e1 hp T (Some s) h = hawkes_simulate G e2 hp T (Some s) h"
  by (simp add: hawkes_simulate_def default_rng_def cong: option.case_cong sum.case_cong prod.case_cong list.case_cong if_cong)

lemma sample_magnitude_entropy:
  "sample_magnitude G e1 evt rng = sample_magnitude G e2 evt rng"
  by (simp add: sample_magnitude_def evt_simulate_seeded [of G e1 _ _ _ e2] cong: option.case_cong sum.case_cong prod.case_cong list.case_cong if_cong)

lemma simulate_event_entropy:
  "simulate_event G e1 st evt tenors t s = simulate_event G e2 st evt tenors t s"
  by (simp add: simulate_event_def sample_magnitude_entropy [of G e1 _ _ e2] cong: option.case_cong sum.case_cong prod.case_cong list.case_cong if_cong)

lemma simulate_events_entropy:
  "simulate_events G e1 st evt tenors ts s = simulate_events G e2 st evt tenors ts s"
  by (induction ts arbitrary: s)
     (simp_all add: simulate_event_entropy [of G e1 _ _ _ _ _ e2] cong: option.case_cong sum.case_cong prod.case_cong list.case_cong if_cong)

lemma simulate_path_entropy:
  "simulate_path G e1 st evt hawkes tenors s = simulate_path G e2 st evt hawkes tenors s"
  by (simp add: simulate_path_def hawkes_simulate_seeded [of G e1 _ _ _ _ e2]
      simulate_events_entropy [of G e1 _ _ _ _ _ e2] cong: option.case_cong sum.case_cong prod.case_cong list.case_cong if_cong)

lemma simulate_paths_entropy:
  "simulate_paths G e1 st evt hawkes tenors k s = simulate_paths G e2 st evt hawkes tenors k s"
  by (induction k arbitrary: s)
     (simp_all add: simulate_path_entropy [of G e1 _ _ _ _ _ e2] cong: option.case_cong sum.case_cong prod.case_cong list.case_cong if_cong)

lemma simulate_hazards_entropy:
  "simulate_hazards G e1 st r tenors n = simulate_hazards G e2 st r tenors n"
  by (simp add: simulate_hazards_def default_rng_def
      simulate_paths_entropy [of G e1 _ _ _ _ _ _ e2] cong: option.case_cong sum.case_cong prod.case_cong list.case_cong if_cong)

text \<open>
  C8. Two runs of \<open>calibrate\<close> on the same fitted state with the same tenors, simulation
  count, peril and configured seed return the same result: every generator the run uses is
  seeded (with \<open>seed + regime.value\<close>, or with an integer drawn from that generator), so
  the operating system's entropy, the one thing that differs between two runs, is never
  read.
\<close>

theorem calibrate_deterministic:
  "calibrate G entropy1 st tenors n_sims peril = calibrate G entropy2 st tenors n_sims peril"
  by (simp add: calibrate_def calibrate_regime_def
      simulate_hazards_entropy [of G entropy1 _ _ _ _ entropy2] cong: option.case_cong sum.case_cong prod.case_cong list.case_cong if_cong)

lemma fit_regime_frame:
  "fit_regime nm lb mags tms regimes obs st r' = Inr st' \<Longrightarrow> r' \<noteq> r \<Longrightarrow>
   evt_models st' r = evt_models st r \<and> hawkes_models st' r = hawkes_models st r"
  by (auto simp: fit_regime_def Let_def split: if_splits sum.splits)

lemma fit_regimes_frame:
  "fit_regimes nm lb mags tms regimes obs st rs = Inr st' \<Longrightarrow> r \<notin> set rs \<Longrightarrow>
   evt_models st' r = evt_models st r \<and> hawkes_models st' r = hawkes_models st r"
proof (induction rs arbitrary: st)
  case Nil
  then show ?case by simp
next
  case (Cons a rs)
  from Cons.prems obtain st1 where
    a: "fit_regime nm lb mags tms regimes obs st a = Inr st1" and
    rest: "fit_regimes nm lb mags tms regimes obs st1 rs = Inr st'"
    by (auto split: sum.splits)
  from Cons.prems have "a \<noteq> r" "r \<notin> set rs" by auto
  with fit_regime_frame [OF a] Cons.IH [OF rest] show ?case by simp
qed

lemma count_mask:
  "length (filter id (regime_mask regimes r)) = length (filter (\<lambda>v. v = regime_value r) regimes)"
  by (simp add: regime_mask_def filter_map comp_def)

lemma fit_regime_at:
  assumes "fit_regime nm lb mags tms regimes obs st r = Inr st'"
    and "length (filter (\<lambda>v. v = regime_value r) regimes) < 5 \<or>
         (\<exists>ms e. np_mask mags (regime_mask regimes r) = Inr ms \<and>
                 evt_fit nm ms 0.9 ''mle'' = Inl (ValueError e)) \<or>
         (\<exists>ts e. np_mask tms (regime_mask regimes r) = Inr ts \<and>
                 hawkes_fit lb ts (Some obs) ''mle'' = Inl (ValueError e))"
  shows "evt_models st' r = None \<or> hawkes_models st' r = None"
  using assms
  by (auto simp: fit_regime_def count_mask caught_def Let_def
      split: if_splits sum.splits error.splits)

lemma fit_regime_skipped:
  assumes "fit_regime nm lb mags tms regimes obs st r = Inr st'"
    and "length (filter (\<lambda>v. v = regime_value r) regimes) < 5"
  shows "evt_models st' r = None \<and> hawkes_models st' r = None"
  using assms by (auto simp: fit_regime_def count_mask Let_def split: if_splits sum.splits)

lemma fit_regimes_at:
  assumes "fit_regimes nm lb mags tms regimes obs st rs = Inr st'"
    and "distinct rs" and "r \<in> set rs"
    and "length (filter (\<lambda>v. v = regime_value r) regimes) < 5 \<or>
         (\<exists>ms e. np_mask mags (regime_mask regimes r) = Inr ms \<and>
                 evt_fit nm ms 0.9 ''mle'' = Inl (ValueError e)) \<or>
         (\<exists>ts e. np_mask tms (regime_mask regimes r) = Inr ts \<and>
                 hawkes_fit lb ts (Some obs) ''mle'' = Inl (ValueError e))"
  shows "(evt_models st' r = None \<or> hawkes_models st' r = None) \<and>
         (length (filter (\<lambda>v. v = regime_value r) regimes) < 5 \<longrightarrow>
            evt_models st' r = None \<and> hawkes_models st' r = None)"
  using assms(1-3)
proof (induction rs arbitrary: st)
  case Nil
  then show ?case by simp
next
  case (Cons a rs)
  from Cons.prems obtain st1 where
    a: "fit_regime nm lb mags tms regimes obs st a = Inr st1" and
    rest: "fit_regimes nm lb mags tms regimes obs st1 rs = Inr st'"
    by (auto split: sum.splits)
  show ?case
  proof (cases "r = a")
    case True
    with Cons.prems have "r \<notin> set rs" by simp
    from fit_regimes_frame [OF rest this] fit_regime_at [OF a] fit_regime_skipped [OF a]
      True assms(4)
    show ?thesis by auto
  next
    case False
    with Cons.prems have "distinct rs" "r \<in> set rs" by auto
    from Cons.IH [OF rest this] show ?thesis .
  qed
qed

text \<open>
  C7. After \<open>HazardCalibrator.fit\<close>, a regime with fewer than 5 observations, or whose EVT
  or Hawkes fit raised a \<open>ValueError\<close> (insufficient data), has no model pair: with fewer
  than 5 observations both fits are skipped, and in every case \<open>_simulate_hazards\<close>
  returns exactly the hard-coded rates of the regime.
\<close>

theorem insufficient_data_defaults:
  assumes "calibrator_fit nm lb st0 mags tms regimes obs = Inr st"
    and "length (filter (\<lambda>v. v = regime_value r) regimes) < 5 \<or>
         (\<exists>ms e. np_mask mags (regime_mask regimes r) = Inr ms \<and>
                 evt_fit nm ms 0.9 ''mle'' = Inl (ValueError e)) \<or>
         (\<exists>ts e. np_mask tms (regime_mask regimes r) = Inr ts \<and>
                 hawkes_fit lb ts (Some obs) ''mle'' = Inl (ValueError e))"
  shows "(evt_models st r = None \<or> hawkes_models st r = None) \<and>
         (length (filter (\<lambda>v. v = regime_value r) regimes) < 5 \<longrightarrow>
            evt_models st r = None \<and> hawkes_models st r = None) \<and>
         simulate_hazards G entropy st r tenors n_sims =
           Some (Inr (case r of
                        CALM \<Rightarrow> [7 \<mapsto> 0.0001, 30 \<mapsto> 0.0005, 90 \<mapsto> 0.0015]
                      | VOLATILE \<Rightarrow> [7 \<mapsto> 0.0005, 30 \<mapsto> 0.0025, 90 \<mapsto> 0.008]
                      | CRISIS \<Rightarrow> [7 \<mapsto> 0.002, 30 \<mapsto> 0.01, 90 \<mapsto> 0.035]))"
proof -
  from assms(1) obtain st1 where
    st1: "fit_regimes nm lb mags tms regimes obs st0 [CALM, VOLATILE, CRISIS] = Inr st1"
    and st: "st = st1\<lparr>fitted := True\<rparr>"
    by (auto simp: calibrator_fit_def split: sum.splits)
  have "distinct [CALM, VOLATILE, CRISIS]" "r \<in> set [CALM, VOLATILE, CRISIS]"
    by (cases r; simp)+
  from fit_regimes_at [OF st1 this assms(2)]
  have models: "(evt_models st r = None \<or> hawkes_models st r = None) \<and>
         (length (filter (\<lambda>v. v = regime_value r) regimes) < 5 \<longrightarrow>
            evt_models st r = None \<and> hawkes_models st r = None)"
    by (simp add: st)
  then have "simulate_hazards G entropy st r tenors n_sims = Some (Inr (base_rates r))"
    by (auto simp: simulate_hazards_def split: option.splits)
  moreover have "base_rates r = (case r of
                        CALM \<Rightarrow> [7 \<mapsto> 0.0001, 30 \<mapsto> 0.0005, 90 \<mapsto> 0.0015]
                      | VOLATILE \<Rightarrow> [7 \<mapsto> 0.0005, 30 \<mapsto> 0.0025, 90 \<mapsto> 0.008]
                      | CRISIS \<Rightarrow> [7 \<mapsto> 0.002, 30 \<mapsto> 0.01, 90 \<mapsto> 0.035])"
    by (cases r) simp_all
  ultimately show ?thesis using models by simp
qed

theorem insufficient_data_defaults_witness:
  "length (filter (\<lambda>v. v = regime_value CRISIS) [0, 2]) < 5 \<and>
   (case calibrator_fit (\<lambda>f x. x) (\<lambda>f x. x)
           \<lparr>trigger_threshold = 0.97, trigger_duration_hours = 24, seed = 42,
            evt_models = \<lambda>r. None, hawkes_models = \<lambda>r. None, fitted = False\<rparr>
           [150, 200] [3, 10] [0, 2] 365 of
      Inl e \<Rightarrow> False
    | Inr st \<Rightarrow>
        simulate_hazards
          \<lparr>seeded = \<lambda>s. s, integers = \<lambda>g. (g, Suc g), exponential = \<lambda>scale g. (scale, Suc g),
           uniform = \<lambda>g. (1 / 2, Suc g)\<rparr> (0::nat) st CRISIS [7, 30, 90] 10000 =
        Some (Inr [7 \<mapsto> 0.002, 30 \<mapsto> 0.01, 90 \<mapsto> 0.035]))"
proof -
  have few: "length (filter (\<lambda>v. v = regime_value CRISIS) [0, 2]) < 5" by simp
  obtain st where fit: "calibrator_fit (\<lambda>f x. x) (\<lambda>f x. x)
           \<lparr>trigger_threshold = 0.97, trigger_duration_hours = 24, seed = 42,
            evt_models = \<lambda>r. None, hawkes_models = \<lambda>r. None, fitted = False\<rparr>
           [150, 200] [3, 10] [0, 2] 365 = Inr st"
    by (simp add: calibrator_fit_def fit_regime_def regime_mask_def)
  from insufficient_data_defaults [OF fit disjI1 [OF few],
      where G = "\<lparr>seeded = \<lambda>s. s, integers = \<lambda>g. (g, Suc g),
                 exponential = \<lambda>scale g. (scale, Suc g), uniform = \<lambda>g. (1 / 2, Suc g)\<rparr>"
        and entropy = "0::nat" and tenors = "[7, 30, 90]" and n_sims = 10000] few fit
  show ?thesis by simp
qed

subsection \<open>Hazard calibrator: curve monotonicity\<close>

lemma exp_10_ge: "(20000::real) \<le> exp 10"
proof -
  have a: "(41 / 32 :: real) \<le> exp (1 / 4)"
    using exp_lower_Taylor_quadratic [of "1 / 4 :: real"] by (simp add: power2_eq_square)
  have "exp (10::real) = exp (1 / 4) ^ 40"
    using exp_of_nat_mult [of 40 "1 / 4 :: real"] by simp
  moreover have "(41 / 32 :: real) ^ 40 \<le> exp (1 / 4) ^ 40"
    by (rule power_mono [OF a]) simp
  moreover have "(20000::real) \<le> (41 / 32) ^ 40" by (simp add: power_divide)
  ultimately show ?thesis by linarith
qed

lemma prob_to_hazard_nonneg: "0 \<le> prob_to_hazard p"
  by (simp add: prob_to_hazard_def)

lemma prob_to_hazard_mono:
  assumes "p \<le> q" and "1 \<le> p \<or> exp (- 10) \<le> 1 - p"
  shows "prob_to_hazard p \<le> prob_to_hazard q"
proof (cases "1 \<le> q")
  case True
  show ?thesis
  proof (cases "1 \<le> p \<or> p \<le> 0")
    case True
    with \<open>1 \<le> q\<close> show ?thesis by (auto simp: prob_to_hazard_def)
  next
    case False
    with assms(2) have "exp (- 10) \<le> 1 - p" and "0 < 1 - p" by auto
    then have "ln (exp (- 10)) \<le> ln (1 - p)"
      by (subst ln_le_cancel_iff) simp_all
    with False True show ?thesis by (simp add: prob_to_hazard_def)
  qed
next
  case False
  with assms(1) have "p < 1" "q < 1" by auto
  show ?thesis
  proof (cases "p \<le> 0")
    case True
    with \<open>q < 1\<close> show ?thesis by (simp add: prob_to_hazard_def)
  next
    case False
    with assms(1) \<open>q < 1\<close> have "ln (1 - q) \<le> ln (1 - p)"
      by (subst ln_le_cancel_iff) simp_all
    with False assms(1) \<open>q < 1\<close> show ?thesis by (simp add: prob_to_hazard_def)
  qed
qed

lemma py_int_mono:
  assumes "x \<le> y"
  shows "py_int x \<le> py_int y"
proof (cases "0 \<le> x")
  case True
  with assms have "0 \<le> y" by simp
  with True assms show ?thesis by (simp add: py_int_def floor_mono)
next
  case False
  show ?thesis
  proof (cases "0 \<le> y")
    case True
    from False have "\<lceil>x\<rceil> \<le> 0" by (simp add: ceiling_le_iff)
    moreover from True have "0 \<le> \<lfloor>y\<rfloor>" by simp
    moreover from False True have "py_int x = \<lceil>x\<rceil>" "py_int y = \<lfloor>y\<rfloor>"
      by (simp_all add: py_int_def)
    ultimately show ?thesis by linarith
  next
    case y: False
    with False y assms show ?thesis by (simp add: py_int_def ceiling_mono)
  qed
qed

lemma py_int_nonneg: "0 \<le> x \<Longrightarrow> 0 \<le> py_int x"
  by (simp add: py_int_def)

lemma build_curve_default_tenors:
  assumes "hazards 7 = Some p7" "hazards 30 = Some p30" "hazards 90 = Some p90"
  shows "build_curve r [7, 30, 90] hazards =
     Inr \<lparr>regime = r,
          H_7d = py_int (prob_to_hazard p7 * 10 ^ 18),
          H_30d = py_int (prob_to_hazard p30 * 10 ^ 18),
          H_90d = py_int (prob_to_hazard p90 * 10 ^ 18),
          tail_slope = py_int (((prob_to_hazard p90 - prob_to_hazard p30) / 60) * 1.1 * 10 ^ 18),
          calibration_date = [],
          n_simulations = int (card (dom hazards))\<rparr>"
  using assms by (simp add: build_curve_def Let_def)

lemma build_curve_monotone:
  assumes "build_curve r [7, 30, 90] hazards = Inr c"
    and "hazards 7 = Some p7" "hazards 30 = Some p30" "hazards 90 = Some p90"
    and "p7 \<le> p30" "p30 \<le> p90"
    and "1 \<le> p7 \<or> exp (- 10) \<le> 1 - p7" "1 \<le> p30 \<or> exp (- 10) \<le> 1 - p30"
  shows "0 \<le> H_7d c \<and> H_7d c \<le> H_30d c \<and> H_30d c \<le> H_90d c \<and> 0 \<le> tail_slope c"
proof -
  have a: "prob_to_hazard p7 \<le> prob_to_hazard p30"
    and b: "prob_to_hazard p30 \<le> prob_to_hazard p90"
    using assms by (simp_all add: prob_to_hazard_mono)
  have c: "c = \<lparr>regime = r,
          H_7d = py_int (prob_to_hazard p7 * 10 ^ 18),
          H_30d = py_int (prob_to_hazard p30 * 10 ^ 18),
          H_90d = py_int (prob_to_hazard p90 * 10 ^ 18),
          tail_slope = py_int (((prob_to_hazard p90 - prob_to_hazard p30) / 60) * 1.1 * 10 ^ 18),
          calibration_date = [],
          n_simulations = int (card (dom hazards))\<rparr>"
    using assms(1) build_curve_default_tenors [OF assms(2-4), of r] by simp
  have "0 \<le> py_int (prob_to_hazard p7 * 10 ^ 18)"
    by (rule py_int_nonneg) (simp add: prob_to_hazard_nonneg)
  moreover have "py_int (prob_to_hazard p7 * 10 ^ 18) \<le> py_int (prob_to_hazard p30 * 10 ^ 18)"
    by (rule py_int_mono) (simp add: a)
  moreover have "py_int (prob_to_hazard p30 * 10 ^ 18) \<le> py_int (prob_to_hazard p90 * 10 ^ 18)"
    by (rule py_int_mono) (simp add: b)
  moreover have "0 \<le> py_int (((prob_to_hazard p90 - prob_to_hazard p30) / 60) * 1.1 * 10 ^ 18)"
    by (rule py_int_nonneg) (simp add: b)
  ultimately show ?thesis by (simp add: c)
qed

lemma mark_triggered_ordered:
  assumes "(tr 7 \<longrightarrow> tr 30) \<and> (tr 30 \<longrightarrow> tr 90)"
  shows "(mark_triggered [7, 30, 90] t tr 7 \<longrightarrow> mark_triggered [7, 30, 90] t tr 30) \<and>
         (mark_triggered [7, 30, 90] t tr 30 \<longrightarrow> mark_triggered [7, 30, 90] t tr 90)"
  using assms by (auto simp: mark_triggered_def)

lemma simulate_event_ordered:
  assumes "simulate_event G e st evt [7, 30, 90] t (g, tr) = Inr (g', tr')"
    and "(tr 7 \<longrightarrow> tr 30) \<and> (tr 30 \<longrightarrow> tr 90)"
  shows "(tr' 7 \<longrightarrow> tr' 30) \<and> (tr' 30 \<longrightarrow> tr' 90)"
proof -
  from assms(1) have "tr' = tr \<or> tr' = mark_triggered [7, 30, 90] t tr"
    by (auto simp: simulate_event_def Let_def split: sum.splits prod.splits if_splits)
  with assms(2) mark_triggered_ordered [OF assms(2), of t] show ?thesis by auto
qed

lemma simulate_events_ordered:
  assumes "simulate_events G e st evt [7, 30, 90] ts (g, tr) = Inr (g', tr')"
    and "(tr 7 \<longrightarrow> tr 30) \<and> (tr 30 \<longrightarrow> tr 90)"
  shows "(tr' 7 \<longrightarrow> tr' 30) \<and> (tr' 30 \<longrightarrow> tr' 90)"
  using assms
proof (induction ts arbitrary: g tr)
  case Nil
  then show ?case by simp
next
  case (Cons t ts)
  from Cons.prems(1) obtain g1 tr1 where
    step: "simulate_event G e st evt [7, 30, 90] t (g, tr) = Inr (g1, tr1)" and
    rest: "simulate_events G e st evt [7, 30, 90] ts (g1, tr1) = Inr (g', tr')"
    by (auto split: sum.splits)
  from simulate_event_ordered [OF step Cons.prems(2)] Cons.IH [OF rest] show ?case by blast
qed

lemma count_triggers_default:
  "count_triggers [7, 30, 90] tr c =
     c(7 := c 7 + (if tr 7 then 1 else 0), 30 := c 30 + (if tr 30 then 1 else 0),
       90 := c 90 + (if tr 90 then 1 else 0))"
  by (auto simp: count_triggers_def fun_eq_iff)

lemma simulate_path_counts:
  assumes "simulate_path G e st evt hawkes [7, 30, 90] (g, c) = Some (Inr (g', c'))"
    and "c 7 \<le> c 30 \<and> c 30 \<le> c 90 \<and> c 90 \<le> k"
  shows "c' 7 \<le> c' 30 \<and> c' 30 \<le> c' 90 \<and> c' 90 \<le> Suc k"
proof -
  from assms(1) obtain g0 ts tr where
    ev: "simulate_events G e st evt [7, 30, 90] ts (g0, \<lambda>t. False) = Inr (g', tr)" and
    c': "c' = count_triggers [7, 30, 90] tr c"
    by (auto simp: simulate_path_def split: sum.splits prod.splits option.splits)
  from simulate_events_ordered [OF ev] have "(tr 7 \<longrightarrow> tr 30) \<and> (tr 30 \<longrightarrow> tr 90)" by simp
  with assms(2) show ?thesis by (auto simp: c' count_triggers_default)
qed

lemma simulate_paths_counts:
  assumes "simulate_paths G e st evt hawkes [7, 30, 90] m (g, c) = Some (Inr (g', c'))"
    and "c 7 \<le> c 30 \<and> c 30 \<le> c 90 \<and> c 90 \<le> k"
  shows "c' 7 \<le> c' 30 \<and> c' 30 \<le> c' 90 \<and> c' 90 \<le> k + m"
  using assms
proof (induction m arbitrary: g c k)
  case 0
  then show ?case by simp
next
  case (Suc m)
  from Suc.prems(1) obtain g1 c1 where
    step: "simulate_path G e st evt hawkes [7, 30, 90] (g, c) = Some (Inr (g1, c1))" and
    rest: "simulate_paths G e st evt hawkes [7, 30, 90] m (g1, c1) = Some (Inr (g', c'))"
    by (auto split: option.splits sum.splits)
  from Suc.IH [OF rest simulate_path_counts [OF step Suc.prems(2)]] show ?case by simp
qed

lemma small_count_below_cap:
  fixes k :: nat and n :: int
  assumes "0 < n" "n \<le> 20000" "int k \<le> n"
  shows "1 \<le> real k / real_of_int n \<or> exp (- 10) \<le> 1 - real k / real_of_int n"
proof (cases "int k = n")
  case True
  with assms(1) show ?thesis by auto
next
  case False
  with assms(3) have "int k + 1 \<le> n" by simp
  then have "real k + 1 \<le> real_of_int n" by linarith
  then have "1 \<le> real_of_int n - real k" by simp
  with assms(1) have "1 / real_of_int n \<le> (real_of_int n - real k) / real_of_int n"
    by (simp add: divide_right_mono)
  also have "\<dots> = 1 - real k / real_of_int n"
    using assms(1) by (simp add: diff_divide_distrib)
  finally have a: "1 / real_of_int n \<le> 1 - real k / real_of_int n" .
  have "exp (- 10 :: real) = 1 / exp 10" by (simp add: exp_minus inverse_eq_divide)
  also have "\<dots> \<le> 1 / 20000"
    using exp_10_ge by (simp add: frac_le)
  also have "\<dots> \<le> 1 / real_of_int n"
    using assms(1,2) by (simp add: frac_le)
  finally show ?thesis using a by simp
qed

lemma base_rates_curve:
  assumes "build_curve r [7, 30, 90] (base_rates r) = Inr c"
  shows "0 \<le> H_7d c \<and> H_7d c \<le> H_30d c \<and> H_30d c \<le> H_90d c \<and> 0 \<le> tail_slope c"
proof -
  have small: "exp (- 10 :: real) \<le> 1 / 20000"
  proof -
    have "exp (- 10 :: real) = 1 / exp 10" by (simp add: exp_minus inverse_eq_divide)
    also have "\<dots> \<le> 1 / 20000" using exp_10_ge by (simp add: frac_le)
    finally show ?thesis .
  qed
  show ?thesis
  proof (cases r)
    case CALM
    show ?thesis
      by (rule build_curve_monotone [OF assms, of "0.0001" "0.0005" "0.0015"])
         (use small in \<open>simp_all add: CALM\<close>)
  next
    case VOLATILE
    show ?thesis
      by (rule build_curve_monotone [OF assms, of "0.0005" "0.0025" "0.008"])
         (use small in \<open>simp_all add: VOLATILE\<close>)
  next
    case CRISIS
    show ?thesis
      by (rule build_curve_monotone [OF assms, of "0.002" "0.01" "0.035"])
         (use small in \<open>simp_all add: CRISIS\<close>)
  qed
qed

lemma calibrate_regime_monotone:
  assumes "calibrate_regime G e st [7, 30, 90] n r = Some (Inr c)" and "n \<le> 20000"
  shows "0 \<le> H_7d c \<and> H_7d c \<le> H_30d c \<and> H_30d c \<le> H_90d c \<and> 0 \<le> tail_slope c"
proof -
  from assms(1) obtain hz where
    hz: "simulate_hazards G e st r [7, 30, 90] n = Some (Inr hz)" and
    c: "build_curve r [7, 30, 90] hz = Inr c"
    by (auto simp: calibrate_regime_def split: option.splits sum.splits)
  show ?thesis
  proof (cases "\<exists>evt hawkes. evt_models st r = Some evt \<and> hawkes_models st r = Some hawkes")
    case False
    then have "hz = base_rates r"
      using hz by (auto simp: simulate_hazards_def split: option.splits)
    with c base_rates_curve show ?thesis by simp
  next
    case True
    then obtain evt hawkes where m: "evt_models st r = Some evt" "hawkes_models st r = Some hawkes"
      by blast
    from hz m obtain g' cnt where
      paths: "simulate_paths G e st evt hawkes [7, 30, 90] (nat n)
                (default_rng G e (Some (seed st + nat (regime_value r))), \<lambda>t. 0) = Some (Inr (g', cnt))"
      and n0: "n \<noteq> 0"
      and hz': "hz = (\<lambda>t. if t \<in> set [7, 30, 90] then Some (real (cnt t) / real_of_int n) else None)"
      by (auto simp: simulate_hazards_def Let_def split: option.splits sum.splits if_splits)
    from simulate_paths_counts [OF paths, of 0]
    have cnt: "cnt 7 \<le> cnt 30" "cnt 30 \<le> cnt 90" "cnt 90 \<le> nat n" by simp_all
    show ?thesis
    proof (cases "0 < n")
      case True
      with cnt have le: "int (cnt 7) \<le> n" "int (cnt 30) \<le> n" by linarith+
      show ?thesis
      proof (rule build_curve_monotone [OF c])
        show "hz 7 = Some (real (cnt 7) / real_of_int n)" by (simp add: hz')
        show "hz 30 = Some (real (cnt 30) / real_of_int n)" by (simp add: hz')
        show "hz 90 = Some (real (cnt 90) / real_of_int n)" by (simp add: hz')
        show "real (cnt 7) / real_of_int n \<le> real (cnt 30) / real_of_int n"
          using cnt True by (simp add: divide_right_mono)
        show "real (cnt 30) / real_of_int n \<le> real (cnt 90) / real_of_int n"
          using cnt True by (simp add: divide_right_mono)
        show "1 \<le> real (cnt 7) / real_of_int n \<or> exp (- 10) \<le> 1 - real (cnt 7) / real_of_int n"
          by (rule small_count_below_cap [OF True assms(2) le(1)])
        show "1 \<le> real (cnt 30) / real_of_int n \<or> exp (- 10) \<le> 1 - real (cnt 30) / real_of_int n"
          by (rule small_count_below_cap [OF True assms(2) le(2)])
      qed
    next
      case False
      with cnt have z: "cnt 7 = 0" "cnt 30 = 0" "cnt 90 = 0" by simp_all
      show ?thesis
        by (rule build_curve_monotone [OF c, of 0 0 0]) (simp_all add: hz' z)
    qed
  qed
qed

text \<open>
  X1. With the default tenors [7, 30, 90] and at most 20000 simulations (the default is
  10000), every curve set that \<open>calibrate\<close> returns, from simulation or from the hard-coded
  rates, has \<open>0 \<le> H_7d \<le> H_30d \<le> H_90d\<close> and \<open>tail_slope \<ge> 0\<close> in each of its three
  curves.
\<close>

theorem calibrated_curves_monotone:
  assumes "calibrate G entropy st [7, 30, 90] n_sims peril = Some (Inr cs)"
    and "n_sims \<le> 20000"
  shows "list_all (\<lambda>c. 0 \<le> H_7d c \<and> H_7d c \<le> H_30d c \<and> H_30d c \<le> H_90d c \<and> 0 \<le> tail_slope c)
           [calm cs, volatile cs, crisis cs]"
proof -
  from assms(1) have
    "calibrate_regime G entropy st [7, 30, 90] n_sims CALM = Some (Inr (calm cs))"
    "calibrate_regime G entropy st [7, 30, 90] n_sims VOLATILE = Some (Inr (volatile cs))"
    "calibrate_regime G entropy st [7, 30, 90] n_sims CRISIS = Some (Inr (crisis cs))"
    by (auto simp: calibrate_def split: if_splits option.splits sum.splits)
  from this [THEN calibrate_regime_monotone [OF _ assms(2)]]
  show ?thesis by simp
qed

theorem calibrated_curves_monotone_witness:
  "(10000::int) \<le> 20000 \<and>
   (case calibrate
           \<lparr>seeded = \<lambda>s. s, integers = \<lambda>g. (g, Suc g), exponential = \<lambda>scale g. (scale, Suc g),
            uniform = \<lambda>g. (1 / 2, Suc g)\<rparr> (0::nat)
           \<lparr>trigger_threshold = 0.97, trigger_duration_hours = 24, seed = 42,
            evt_models = \<lambda>r. None, hawkes_models = \<lambda>r. None, fitted = True\<rparr>
           [7, 30, 90] 10000 ''USDC_depeg'' of
      Some (Inr cs) \<Rightarrow>
        list_all (\<lambda>c. 0 \<le> H_7d c \<and> H_7d c \<le> H_30d c \<and> H_30d c \<le> H_90d c \<and> 0 \<le> tail_slope c)
          [calm cs, volatile cs, crisis cs]
    | _ \<Rightarrow> False)"
proof -
  obtain cs where run: "calibrate
           \<lparr>seeded = \<lambda>s. s, integers = \<lambda>g. (g, Suc g), exponential = \<lambda>scale g. (scale, Suc g),
            uniform = \<lambda>g. (1 / 2, Suc g)\<rparr> (0::nat)
           \<lparr>trigger_threshold = 0.97, trigger_duration_hours = 24, seed = 42,
            evt_models = \<lambda>r. None, hawkes_models = \<lambda>r. None, fitted = True\<rparr>
           [7, 30, 90] 10000 ''USDC_depeg'' = Some (Inr cs)"
    by (simp add: calibrate_def calibrate_regime_def simulate_hazards_def build_curve_def)
  have le: "(10000::int) \<le> 20000" by simp
  from calibrated_curves_monotone [OF run le] run show ?thesis by simp
qed

lemma exp_10_25_le: "exp (41 / 4 :: real) \<le> 100000"
proof -
  have a: "exp (10::real) = exp 1 ^ 10"
    using exp_of_nat_mult [of 10 "1::real"] by simp
  have "exp (1::real) ^ 10 \<le> 3 ^ 10"
    by (rule power_mono [OF exp_le]) simp
  then have b: "exp (10::real) \<le> 59049" using a by simp
  have c: "exp (1 / 4 :: real) \<le> 3 / 2"
    using real_exp_bound_lemma [of "1 / 4"] by simp
  have "exp (41 / 4 :: real) = exp 10 * exp (1 / 4)"
    by (simp add: exp_add [symmetric])
  also have "\<dots> \<le> 59049 * (3 / 2)"
    by (rule mult_mono [OF b c]) simp_all
  finally show ?thesis by simp
qed

lemma ln_100000_ge: "41 / 4 \<le> ln (100000 :: real)"
proof -
  have "ln (exp (41 / 4 :: real)) \<le> ln 100000"
    by (subst ln_le_cancel_iff) (simp_all add: exp_10_25_le)
  then show ?thesis by simp
qed

lemma prob_to_hazard_near_one: "41 / 4 \<le> prob_to_hazard 0.99999"
proof -
  have "prob_to_hazard 0.99999 = - ln (1 / 100000)"
    by (simp add: prob_to_hazard_def)
  also have "\<dots> = ln 100000"
    by (simp add: ln_div)
  finally show ?thesis using ln_100000_ge by simp
qed

text \<open>
  C1. The claim fails on the code where a simulated probability lies strictly between
  \<open>1 - exp (-10)\<close> and 1: \<open>prob_to_hazard\<close> caps the hazard at 10 only for \<open>p \<ge> 1\<close>, and
  \<open>- ln (1 - p)\<close> is above 10 there. With 100000 simulations of which 99999 trigger by day
  30 and all by day 90, \<open>_build_curve\<close> returns \<open>H_90d = 10 ^ 19 < H_30d\<close> and a negative
  \<open>tail_slope\<close>.
\<close>

theorem build_curve_above_cap:
  "case build_curve CRISIS [7, 30, 90] [7 \<mapsto> 0.99999, 30 \<mapsto> 0.99999, 90 \<mapsto> 1] of
     Inl e \<Rightarrow> False
   | Inr c \<Rightarrow> H_90d c = 10 ^ 19 \<and> H_90d c < H_30d c \<and> tail_slope c < 0"
proof -
  define h where "h = prob_to_hazard 0.99999"
  have h: "41 / 4 \<le> h" unfolding h_def by (rule prob_to_hazard_near_one)
  have one: "prob_to_hazard 1 = 10" by (simp add: prob_to_hazard_def)
  have eq: "build_curve CRISIS [7, 30, 90] [7 \<mapsto> 0.99999, 30 \<mapsto> 0.99999, 90 \<mapsto> 1] =
      Inr \<lparr>regime = CRISIS, H_7d = py_int (h * 10 ^ 18), H_30d = py_int (h * 10 ^ 18),
           H_90d = py_int (10 * 10 ^ 18),
           tail_slope = py_int (((10 - h) / 60) * 1.1 * 10 ^ 18),
           calibration_date = [], n_simulations = int (card (dom [7 \<mapsto> 0.99999::real, 30 \<mapsto> 0.99999, (90::int) \<mapsto> 1]))\<rparr>"
    by (simp add: build_curve_def h_def one Let_def)
  have h90: "py_int (10 * 10 ^ 18) = 10 ^ 19" by (simp add: py_int_def)
  have "(41 / 4) * 10 ^ 18 \<le> h * 10 ^ 18" using h by simp
  then have "\<lfloor>(41 / 4 :: real) * 10 ^ 18\<rfloor> \<le> \<lfloor>h * 10 ^ 18\<rfloor>" by (rule floor_mono)
  moreover have "\<lfloor>(41 / 4 :: real) * 10 ^ 18\<rfloor> = 10250000000000000000" by simp
  ultimately have h30: "10 ^ 19 < py_int (h * 10 ^ 18)"
    using h by (simp add: py_int_def)
  have "((10 - h) / 60) * 1.1 * 10 ^ 18 \<le> - 1" using h by simp
  then have "\<lceil>((10 - h) / 60) * 1.1 * 10 ^ 18\<rceil> \<le> - 1"
    by (simp add: ceiling_le_iff)
  then have slope: "py_int (((10 - h) / 60) * 1.1 * 10 ^ 18) < 0"
    using h by (simp add: py_int_def)
  show ?thesis using h90 h30 slope by (subst eq) simp
qed

subsection \<open>EVT model\<close>







lemma evt_fit_Inl_cases:
  "evt_fit nm data q method = Inl e \<longleftrightarrow>
     (case np_quantile data q of
        Inl e' \<Rightarrow> e = e'
      | Inr t \<Rightarrow>
          (let k = length (filter (\<lambda>x. x > t) data) in
           if k < 10 then e = ValueError (InsufficientExcesses k)
           else method \<noteq> ''mle'' \<and> method \<noteq> ''pwm'' \<and> e = ValueError (UnknownMethod method)))"
  by (cases "np_quantile data q") (auto simp: evt_fit_def Let_def)

text \<open>
  C5 (amended). \<open>EVTModel.fit\<close> raises before any parameter estimation, whatever the
  optimiser: a \<open>ValueError\<close> for a threshold quantile outside [0, 1] (numpy's check), and
  for an unknown method name on non-empty data (unknown method with at least 10 excesses,
  insufficient excesses with fewer). It makes no check against [0.9, 0.99].
\<close>

theorem evt_fit_eager_errors:
  "(q < 0 \<or> 1 < q \<longrightarrow> evt_fit nm data q method = Inl (ValueError QuantileOutOfRange)) \<and>
   (0 \<le> q \<and> q \<le> 1 \<and> data \<noteq> [] \<and> method \<noteq> ''mle'' \<and> method \<noteq> ''pwm'' \<longrightarrow>
      evt_fit nm data q method = Inl (ValueError (UnknownMethod method)) \<or>
      (\<exists>k<10. evt_fit nm data q method = Inl (ValueError (InsufficientExcesses k)))) \<and>
   (\<forall>e. evt_fit nm data q method = Inl e \<longrightarrow> evt_fit nm' data q method = Inl e)"
proof (intro conjI impI allI)
  assume "q < 0 \<or> 1 < q"
  then have "np_quantile data q = Inl (ValueError QuantileOutOfRange)"
    by (simp add: np_quantile_def)
  then show "evt_fit nm data q method = Inl (ValueError QuantileOutOfRange)"
    by (simp add: evt_fit_Inl_cases)
next
  assume a: "0 \<le> q \<and> q \<le> 1 \<and> data \<noteq> [] \<and> method \<noteq> ''mle'' \<and> method \<noteq> ''pwm''"
  then obtain t where t: "np_quantile data q = Inr t"
    by (auto simp: np_quantile_def Let_def)
  show "evt_fit nm data q method = Inl (ValueError (UnknownMethod method)) \<or>
      (\<exists>k<10. evt_fit nm data q method = Inl (ValueError (InsufficientExcesses k)))"
  proof (cases "length (filter (\<lambda>x. x > t) data) < 10")
    case True
    then have "evt_fit nm data q method =
        Inl (ValueError (InsufficientExcesses (length (filter (\<lambda>x. x > t) data))))"
      by (simp add: evt_fit_Inl_cases t)
    with True show ?thesis by blast
  next
    case False
    with a have "evt_fit nm data q method = Inl (ValueError (UnknownMethod method))"
      by (simp add: evt_fit_Inl_cases t)
    then show ?thesis by simp
  qed
next
  fix e
  assume "evt_fit nm data q method = Inl e"
  then show "evt_fit nm' data q method = Inl e"
    by (simp add: evt_fit_Inl_cases)
qed

theorem evt_fit_eager_errors_witness:
  "(1::real) < 3 / 2 \<and>
   evt_fit (\<lambda>f x. x) [1, 2, 3] (3 / 2) ''mle'' = Inl (ValueError QuantileOutOfRange) \<and>
   evt_fit (\<lambda>f x. x) (map real_of_int [2..21])
     (1 / 2) ''gmm'' = Inl (ValueError (UnknownMethod ''gmm''))"
  using evt_fit_eager_errors [of "3 / 2" "\<lambda>f x. x" "[1, 2, 3]" "''mle''" "\<lambda>f x. x"]
    evt_fit_eager_errors [of "1 / 2" "\<lambda>f x. x"
      "(map real_of_int [2..21])" "''gmm''" "\<lambda>f x. x"]
  by (simp add: evt_fit_Inl_cases np_quantile_def Let_def)

text \<open>
  C5 as stated fails: with the threshold quantile 0.5, outside [0.9, 0.99], \<open>fit\<close> raises
  nothing and returns parameters.
\<close>

theorem evt_fit_accepts_low_quantile:
  "\<not> (0.9 \<le> (0.5::real) \<and> (0.5::real) \<le> 0.99) \<and>
   evt_fit (\<lambda>f x. x) (map real_of_int [2..21])
     0.5 ''pwm'' =
   Inr \<lparr>gpd_params = Some \<lparr>xi = 16 / 3, beta = - 65 / 3, threshold = 11.5,
                            n_excesses = 10, n_total = 20\<rparr>,
        evt_data = (map real_of_int [2..21]),
        evt_excesses = [0.5, 1.5, 2.5, 3.5, 4.5, 5.5, 6.5, 7.5, 8.5, 9.5]\<rparr>"
  by (simp add: evt_fit_def np_quantile_def Let_def fit_gpd_pwm_def np_mean_def upt_rec_numeral)

subsection \<open>Hawkes process: stability of the fitted parameters\<close>

lemma em_kernel_pos: "0 < a \<Longrightarrow> 0 < em_kernel a b ts i j"
  by (simp add: em_kernel_def)

lemma em_denom_pos:
  assumes "0 < l" "0 < a"
  shows "0 < em_denom l a b ts i"
proof -
  have "0 \<le> (\<Sum>j\<leftarrow>[0..<i]. em_kernel a b ts i j)"
    by (rule sum_list_nonneg) (auto simp: em_kernel_pos [OF assms(2)] less_imp_le)
  with assms(1) show ?thesis by (simp add: em_denom_def)
qed

lemma em_row_eq:
  assumes "0 < l" "0 < a"
  shows "(\<Sum>j\<leftarrow>[0..<i]. em_P l a b ts i j) =
         (\<Sum>j\<leftarrow>[0..<i]. em_kernel a b ts i j) / em_denom l a b ts i"
proof -
  have "(\<Sum>j\<leftarrow>[0..<i]. em_P l a b ts i j) = (\<Sum>j\<leftarrow>[0..<i]. em_kernel a b ts i j * inverse (em_denom l a b ts i))"
    using em_denom_pos [OF assms, of b ts i]
    by (simp add: em_P_def divide_inverse)
  also have "\<dots> = (\<Sum>j\<leftarrow>[0..<i]. em_kernel a b ts i j) * inverse (em_denom l a b ts i)"
    by (simp add: sum_list_mult_const)
  finally show ?thesis by (simp add: divide_inverse)
qed

lemma em_row_bounds:
  assumes "0 < l" "0 < a"
  shows "0 \<le> (\<Sum>j\<leftarrow>[0..<i]. em_P l a b ts i j)" and "(\<Sum>j\<leftarrow>[0..<i]. em_P l a b ts i j) < 1"
proof -
  define S where "S = (\<Sum>j\<leftarrow>[0..<i]. em_kernel a b ts i j)"
  have S: "0 \<le> S" unfolding S_def
    by (rule sum_list_nonneg) (auto simp: em_kernel_pos [OF assms(2)] less_imp_le)
  have eq: "(\<Sum>j\<leftarrow>[0..<i]. em_P l a b ts i j) = S / (l + S)"
    by (simp add: em_row_eq [OF assms] em_denom_def S_def)
  show "0 \<le> (\<Sum>j\<leftarrow>[0..<i]. em_P l a b ts i j)" using S assms(1) by (simp add: eq)
  show "(\<Sum>j\<leftarrow>[0..<i]. em_P l a b ts i j) < 1" using S assms(1) by (simp add: eq)
qed

lemma em_row_pos:
  assumes "0 < l" "0 < a" "0 < i"
  shows "0 < (\<Sum>j\<leftarrow>[0..<i]. em_P l a b ts i j)"
proof -
  define S where "S = (\<Sum>j\<leftarrow>[0..<i]. em_kernel a b ts i j)"
  from assms(3) obtain k where i: "i = Suc k" by (cases i) auto
  have "0 \<le> (\<Sum>j\<leftarrow>[0..<k]. em_kernel a b ts i j)"
    by (rule sum_list_nonneg) (auto simp: em_kernel_pos [OF assms(2)] less_imp_le)
  then have S: "0 < S"
    using em_kernel_pos [OF assms(2), of b ts i k] by (simp add: S_def i)
  have eq: "(\<Sum>j\<leftarrow>[0..<i]. em_P l a b ts i j) = S / (l + S)"
    by (simp add: em_row_eq [OF assms(1,2)] em_denom_def S_def)
  show ?thesis using S assms(1) by (simp add: eq)
qed

lemma sum_P_bounds:
  assumes "0 < l" "0 < a"
  shows "0 \<le> (\<Sum>i\<leftarrow>[0..<n]. (\<Sum>j\<leftarrow>[0..<i]. em_P l a b ts i j))"
    and "0 < n \<Longrightarrow> (\<Sum>i\<leftarrow>[0..<n]. (\<Sum>j\<leftarrow>[0..<i]. em_P l a b ts i j)) < real n"
    and "2 \<le> n \<Longrightarrow> 0 < (\<Sum>i\<leftarrow>[0..<n]. (\<Sum>j\<leftarrow>[0..<i]. em_P l a b ts i j))"
proof -
  show nonneg: "0 \<le> (\<Sum>i\<leftarrow>[0..<n]. (\<Sum>j\<leftarrow>[0..<i]. em_P l a b ts i j))" for n
    by (rule sum_list_nonneg) (auto simp: em_row_bounds [OF assms])
  show "0 < n \<Longrightarrow> (\<Sum>i\<leftarrow>[0..<n]. (\<Sum>j\<leftarrow>[0..<i]. em_P l a b ts i j)) < real n"
  proof (induction n)
    case 0
    then show ?case by simp
  next
    case (Suc n)
    have "(\<Sum>i\<leftarrow>[0..<n]. (\<Sum>j\<leftarrow>[0..<i]. em_P l a b ts i j)) \<le> real n"
    proof (cases "0 < n")
      case True
      with Suc.IH show ?thesis by simp
    next
      case False
      then show ?thesis by simp
    qed
    with em_row_bounds(2) [OF assms, of b ts n] show ?case by simp
  qed
  assume "2 \<le> n"
  have one: "0 < (\<Sum>j\<leftarrow>[0..<1]. em_P l a b ts 1 j)"
    by (rule em_row_pos [OF assms]) simp
  have "0 < sum (\<lambda>i. \<Sum>j\<leftarrow>[0..<i]. em_P l a b ts i j) {0..<n}"
  proof (rule sum_pos2 [of _ 1])
    show "finite {0..<n}" by simp
    show "1 \<in> {0..<n}" using \<open>2 \<le> n\<close> by simp
    show "0 < (\<Sum>j\<leftarrow>[0..<1]. em_P l a b ts 1 j)" by (rule one)
    show "0 \<le> (\<Sum>j\<leftarrow>[0..<i]. em_P l a b ts i j)" for i
      by (rule em_row_bounds [OF assms])
  qed
  then show "0 < (\<Sum>i\<leftarrow>[0..<n]. \<Sum>j\<leftarrow>[0..<i]. em_P l a b ts i j)"
    by (simp only: interv_sum_list_conv_sum_set_nat set_upt)
qed

lemma em_step_invariant:
  assumes "0 < l" "0 < a" "0 < b" "0 < T" "0 < length ts"
    and "em_step ts T (l, a, b) = (l', a', b')"
  shows "0 < l' \<and> 0 < a' \<and> 0 < b' \<and> (2 \<le> length ts \<or> a < b \<longrightarrow> a' < b')"
proof -
  define n where "n = length ts"
  define sum_P where "sum_P = (\<Sum>i\<leftarrow>[0..<n]. \<Sum>j\<leftarrow>[0..<i]. em_P l a b ts i j)"
  define ws where
    "ws = (\<Sum>i\<leftarrow>[0..<n]. \<Sum>j\<leftarrow>[0..<i]. em_P l a b ts i j * (ts ! i - ts ! j))"
  have n: "0 < n" using assms(5) by (simp add: n_def)
  have P0: "0 \<le> sum_P" and Pn: "sum_P < real n" and P2: "2 \<le> n \<Longrightarrow> 0 < sum_P"
    unfolding sum_P_def using sum_P_bounds [OF assms(1,2), where n = n and b = b and ts = ts] n
    by simp_all
  have step: "em_step ts T (l, a, b) =
      (if sum_P > 0
       then ((real n - sum_P) / T, sum_P / real n * (if ws > 0 then sum_P / ws else b),
             if ws > 0 then sum_P / ws else b)
       else ((real n - sum_P) / T, a, b))"
    unfolding em_step_def n_def sum_P_def ws_def by (simp add: Let_def)
  have l': "l' = (real n - sum_P) / T"
    using assms(6) unfolding step by (simp split: if_splits)
  have pos_l: "0 < l'" using Pn assms(4) by (simp add: l')
  show ?thesis
  proof (cases "0 < sum_P")
    case True
    have b': "b' = (if ws > 0 then sum_P / ws else b)" and a': "a' = sum_P / real n * b'"
      using assms(6) True unfolding step by auto
    have pos_b: "0 < b'" using True assms(3) by (simp add: b')
    have ratio: "0 < sum_P / real n" "sum_P / real n < 1" using True Pn n by simp_all
    have "0 < a'" unfolding a' by (rule mult_pos_pos [OF ratio(1) pos_b])
    moreover have "sum_P / real n * b' < 1 * b'"
      by (rule mult_strict_right_mono [OF ratio(2) pos_b])
    then have "a' < b'" unfolding a' by simp
    ultimately show ?thesis using pos_l pos_b by simp
  next
    case False
    then have "a' = a" "b' = b"
      using assms(6) unfolding step by simp_all
    moreover from False P2 have "\<not> 2 \<le> length ts" by (auto simp: n_def)
    ultimately show ?thesis using pos_l assms(2,3) by simp
  qed
qed

lemma em_step_form:
  assumes "0 < l" "0 < a" "0 < b" "2 \<le> length ts"
    and "em_step ts T (l, a, b) = (l', a', b')"
  shows "\<exists>S. 0 < S \<and> S < real (length ts) \<and> l' = (real (length ts) - S) / T \<and>
             a' = S / real (length ts) * b' \<and> 0 < b'"
proof -
  define n where "n = length ts"
  define sum_P where "sum_P = (\<Sum>i\<leftarrow>[0..<n]. \<Sum>j\<leftarrow>[0..<i]. em_P l a b ts i j)"
  define ws where
    "ws = (\<Sum>i\<leftarrow>[0..<n]. \<Sum>j\<leftarrow>[0..<i]. em_P l a b ts i j * (ts ! i - ts ! j))"
  have n: "0 < n" "2 \<le> n" using assms(4) by (cases ts; simp add: n_def)+
  have Pn: "sum_P < real n" and P2: "0 < sum_P"
    unfolding sum_P_def using sum_P_bounds [OF assms(1,2), where n = n and b = b and ts = ts] n
    by simp_all
  have step: "em_step ts T (l, a, b) =
      ((real n - sum_P) / T, sum_P / real n * (if ws > 0 then sum_P / ws else b),
       if ws > 0 then sum_P / ws else b)"
    unfolding em_step_def n_def sum_P_def ws_def
    using P2 [unfolded sum_P_def n_def] by (simp add: Let_def)
  have l': "l' = (real n - sum_P) / T" and b': "b' = (if ws > 0 then sum_P / ws else b)"
    and a': "a' = sum_P / real n * b'"
    using assms(5) unfolding step by auto
  have "0 < b'" using P2 assms(3) by (simp add: b')
  with P2 Pn l' a' show ?thesis unfolding n_def by blast
qed

lemma em_loop_invariant:
  assumes "0 < l" "0 < a" "0 < b" "0 < T" "2 \<le> length ts"
    and "em_loop ts T k (l, a, b) = (l', a', b')"
  shows "0 < l' \<and> 0 < a' \<and> 0 < b' \<and> ((l', a', b') = (l, a, b) \<or> a' < b')"
  using assms(1-3,6)
proof (induction k arbitrary: l a b)
  case 0
  then show ?case by simp
next
  case (Suc k)
  obtain l1 a1 b1 where step: "em_step ts T (l, a, b) = (l1, a1, b1)"
    by (cases "em_step ts T (l, a, b)") auto
  from assms(5) have len: "0 < length ts" by (cases ts) simp_all
  from em_step_invariant [OF Suc.prems(1-3) assms(4) len step] assms(5)
  have inv1: "0 < l1" "0 < a1" "0 < b1" "a1 < b1" by simp_all
  show ?case
  proof (cases "em_converged (l, a, b) (l1, a1, b1)")
    case True
    with Suc.prems step show ?thesis by simp
  next
    case False
    with Suc.prems(4) step have "em_loop ts T k (l1, a1, b1) = (l', a', b')" by simp
    from Suc.IH [OF inv1(1-3) this] inv1(4) show ?thesis by auto
  qed
qed

lemma is_stable_iff: "is_stable p \<longleftrightarrow> 0 < HawkesParams.beta p \<and> alpha p < HawkesParams.beta p"
  by (simp add: is_stable_def branching_ratio_def)

lemma hawkes_objective_flat:
  "b \<le> a \<Longrightarrow> hawkes_neg_log_likelihood event_times T (l, a, b) = 10 ^ 10"
  by (simp add: hawkes_neg_log_likelihood_def)

lemma em_initial_guess_moves:
  assumes "2 \<le> length ts" and "0 < T" and "10 * T \<le> 3 * real (length ts)"
  shows "\<not> em_converged (real (length ts) / T * 0.5, real (length ts) / T * 0.3, 1)
            (em_step ts T (real (length ts) / T * 0.5, real (length ts) / T * 0.3, 1))"
proof
  define n where "n = real (length ts)"
  define r where "r = n / T"
  assume conv: "em_converged (real (length ts) / T * 0.5, real (length ts) / T * 0.3, 1)
            (em_step ts T (real (length ts) / T * 0.5, real (length ts) / T * 0.3, 1))"
  obtain l1 a1 b1 where step: "em_step ts T (r * 0.5, r * 0.3, 1) = (l1, a1, b1)"
    by (cases "em_step ts T (r * 0.5, r * 0.3, 1)") auto
  have n: "0 < n" using assms(1) by (cases ts) (simp_all add: n_def)
  then have r: "0 < r" using assms(2) by (simp add: r_def)
  then have init: "0 < r * 0.5" "0 < r * 0.3" "(0::real) < 1" by simp_all
  from em_step_form [OF init assms(1) step] obtain S where
    S: "0 < S" "S < n" "l1 = (n - S) / T" "a1 = S / n * b1" "0 < b1"
    unfolding n_def by blast
  from conv step have c: "\<bar>l1 - r * 0.5\<bar> < 1 / 10 ^ 6" "\<bar>a1 - r * 0.3\<bar> < 1 / 10 ^ 6"
      "\<bar>b1 - 1\<bar> < 1 / 10 ^ 6"
    by (simp_all add: em_converged_def r_def n_def)
  have "l1 - r * 0.5 = (n / 2 - S) / T"
    using assms(2) by (simp add: S(3) r_def field_simps)
  with c(1) have "- (1 / 10 ^ 6) < (n / 2 - S) / T" by linarith
  then have "- (T / 1000000) < n / 2 - S"
    using assms(2) by (simp add: pos_less_divide_eq)
  moreover have "T \<le> 3 / 10 * n" using assms(3) by (simp add: n_def)
  ultimately have "S < 6 / 10 * n" using n by linarith
  then have q: "S / n < 6 / 10" using n by (simp add: pos_divide_less_eq)
  have "S / n * b1 < 6 / 10 * b1"
    by (rule mult_strict_right_mono [OF q S(5)])
  moreover have "b1 < 1 + 1 / 10 ^ 6" using c(3) by linarith
  ultimately have upper: "a1 < 61 / 100" unfolding S(4) by simp
  have "1 \<le> r * 0.3" using assms(2,3) by (simp add: r_def n_def pos_le_divide_eq)
  with c(2) have "1 - 1 / 10 ^ 6 < a1" by linarith
  with upper show False by simp
qed

lemma em_fit_result_stable:
  assumes "2 \<le> length ts" and "0 < T" and "0 < max_iter"
  shows "\<exists>p. fit_em ts T max_iter = Inr p \<and> 0 < lambda0 p \<and> 0 < alpha p \<and>
           alpha p < HawkesParams.beta p \<and> is_stable p"
proof -
  define r where "r = real (length ts) / T"
  obtain l' a' b' where loop: "em_loop ts T max_iter (r * 0.5, r * 0.3, 1) = (l', a', b')"
    by (cases "em_loop ts T max_iter (r * 0.5, r * 0.3, 1)") auto
  have "0 < real (length ts)" using assms(1) by (cases ts) simp_all
  then have r: "0 < r" using assms(2) by (simp add: r_def)
  then have init: "0 < r * 0.5" "0 < r * 0.3" "(0::real) < 1" by simp_all
  from em_loop_invariant [OF init assms(2,1) loop]
  have inv: "0 < l'" "0 < a'" "0 < b'" "(l', a', b') = (r * 0.5, r * 0.3, 1) \<or> a' < b'"
    by simp_all
  have fit: "fit_em ts T max_iter = Inr \<lparr>lambda0 = l', alpha = a', beta = b'\<rparr>"
    using assms(2) loop by (simp add: fit_em_def Let_def r_def)
  have "a' < b'"
  proof (cases "10 * T \<le> 3 * real (length ts)")
    case True
    from assms(3) obtain k where k: "max_iter = Suc k" by (cases max_iter) auto
    obtain l1 a1 b1 where step: "em_step ts T (r * 0.5, r * 0.3, 1) = (l1, a1, b1)"
      by (cases "em_step ts T (r * 0.5, r * 0.3, 1)") auto
    from em_initial_guess_moves [OF assms(1,2) True] step
    have nc: "\<not> em_converged (r * 0.5, r * 0.3, 1) (l1, a1, b1)" by (simp add: r_def)
    from assms(1) have len: "0 < length ts" by (cases ts) simp_all
    from em_step_invariant [OF init assms(2) len step] assms(1)
    have inv1: "0 < l1" "0 < a1" "0 < b1" "a1 < b1" by simp_all
    from loop step nc have "em_loop ts T k (l1, a1, b1) = (l', a', b')" by (simp add: k)
    from em_loop_invariant [OF inv1(1-3) assms(2,1) this] inv1(4) show ?thesis by auto
  next
    case False
    then have "r * 0.3 < 1" using assms(2) by (simp add: r_def pos_divide_less_eq)
    with inv(4) show ?thesis by auto
  qed
  with inv fit show ?thesis by (simp add: is_stable_iff)
qed

text \<open>
  X2. \<open>HawkesProcess.fit\<close> with method 'em': for at least three event times, all in the
  observation window from 0 to \<open>T\<close> (the given \<open>T_max\<close>, or 1.1 times the last event time),
  with \<open>T\<close> positive, the fit returns parameters that are all positive with
  \<open>alpha < beta\<close>, so \<open>is_stable\<close> holds, also when the initial guess
  \<open>alpha = 0.3 n / T, beta = 1\<close> is not stable: the first EM step then moves away from
  the guess, and every EM step gives \<open>alpha = (sum_P / n) beta\<close> with \<open>sum_P < n\<close>.
\<close>

theorem hawkes_fit_em_stable:
  assumes "3 \<le> length event_times"
    and "T = (case T_max of None \<Rightarrow> last (sort event_times) * 1.1 | Some t \<Rightarrow> t)"
    and "0 < T"
    and "\<forall>t\<in>set event_times. 0 \<le> t \<and> t \<le> T"
  shows "\<exists>p. hawkes_fit lb event_times T_max ''em'' =
               Inr \<lparr>params = Some p, hawkes_event_times = sort event_times, hawkes_T_max = T\<rparr> \<and>
             0 < lambda0 p \<and> 0 < alpha p \<and> alpha p < HawkesParams.beta p \<and> is_stable p"
proof -
  have len: "2 \<le> length (sort event_times)" using assms(1) by simp
  have "(0::nat) < 100" by simp
  from em_fit_result_stable [OF len assms(3) this] obtain p where
    p: "fit_em (sort event_times) T 100 = Inr p" "0 < lambda0 p" "0 < alpha p"
      "alpha p < HawkesParams.beta p" "is_stable p"
    by auto
  have "hawkes_fit lb event_times T_max ''em'' =
          Inr \<lparr>params = Some p, hawkes_event_times = sort event_times, hawkes_T_max = T\<rparr>"
    using assms(1,2) p(1) by (simp add: hawkes_fit_def Let_def)
  with p(2-5) show ?thesis by blast
qed

theorem hawkes_fit_em_stable_witness:
  "\<exists>p. hawkes_fit (\<lambda>f x. x) [0.1, 0.2, 0.3] None ''em'' =
          Inr \<lparr>params = Some p, hawkes_event_times = [0.1, 0.2, 0.3], hawkes_T_max = 0.33\<rparr> \<and>
        0 < lambda0 p \<and> 0 < alpha p \<and> alpha p < HawkesParams.beta p \<and> is_stable p"
proof -
  have a: "3 \<le> length [0.1, 0.2, 0.3 :: real]" by simp
  have b: "(0.33::real) = (case None of None \<Rightarrow> last (sort [0.1, 0.2, 0.3]) * 1.1 | Some t \<Rightarrow> t)"
    by simp
  have c: "(0::real) < 0.33" by simp
  have d: "\<forall>t\<in>set [0.1, 0.2, 0.3 :: real]. 0 \<le> t \<and> t \<le> 0.33" by simp
  from hawkes_fit_em_stable [OF a b c d, of "\<lambda>f x. x"] show ?thesis by simp
qed

text \<open>
  C2. \<open>HawkesProcess.fit\<close> with method 'mle' (the default) returns the point of the
  optimiser as it is, with no check of \<open>alpha < beta\<close>. For the event times 0.1, 0.2, 0.3
  and no \<open>T_max\<close> the window is 0.33 and the initial guess is \<open>(50/11, 30/11, 1)\<close>, where
  \<open>alpha \<ge> beta\<close>: there the objective is the constant \<open>1e10\<close> (it is on all points with
  \<open>alpha \<ge> beta\<close>, lemma \<open>hawkes_objective_flat\<close>), so an optimiser that stops where the
  objective does not decrease returns the guess, and \<open>fit\<close> returns parameters with
  \<open>alpha = 30/11 \<ge> 1 = beta\<close> that are not stable.
\<close>

theorem hawkes_fit_mle_returns_unstable:
  "hawkes_fit (\<lambda>f x. x) [0.1, 0.2, 0.3] None ''mle'' =
     Inr \<lparr>params = Some \<lparr>lambda0 = 50 / 11, alpha = 30 / 11, beta = 1\<rparr>,
          hawkes_event_times = [0.1, 0.2, 0.3], hawkes_T_max = 0.33\<rparr> \<and>
   \<not> (30 / 11 :: real) < 1 \<and>
   \<not> is_stable \<lparr>lambda0 = 50 / 11, alpha = 30 / 11, beta = 1\<rparr> \<and>
   hawkes_neg_log_likelihood [0.1, 0.2, 0.3] 0.33 (50 / 11, 30 / 11, 1) = 10 ^ 10"
  by (simp add: hawkes_fit_def fit_mle_def is_stable_iff hawkes_neg_log_likelihood_def)

subsection \<open>Regime classifier: the order of the labels\<close>

lemma euclidean_distance_1d: "euclidean_distance [x] [c] = \<bar>x - c\<bar>"
  by (simp add: euclidean_distance_def)

lemma collect_map_Inr:
  "(\<And>x. x \<in> set xs \<Longrightarrow> f x = Inr (g x)) \<Longrightarrow> collect (map f xs) = Inr (map g xs)"
  by (induction xs) simp_all

lemma np_argmax_scaled:
  assumes "0 < s"
  shows "np_argmax (map (\<lambda>p. p / s) xs) = np_argmax xs"
proof -
  have "argmax_from (map (\<lambda>p. p / s) ys) i best (v / s) = argmax_from ys i best v"
    for ys i best v
    using assms by (induction ys arbitrary: i best v) (simp_all add: divide_strict_right_mono divide_less_cancel)
  then show ?thesis by (cases xs) (simp_all add: np_argmax_def)
qed

lemma scaled_points:
  "scaler_transform \<lparr>scaler_mean = [100.01], scaler_scale = [1.01]\<rparr> [100] = Inr [- (1 / 101)]"
  "scaler_transform \<lparr>scaler_mean = [100.01], scaler_scale = [1.01]\<rparr> [99] = Inr [- 1]"
  "scaler_transform \<lparr>scaler_mean = [100.01], scaler_scale = [1.01]\<rparr> [201] = Inr [10099 / 101]"
  by (simp_all add: scaler_transform_def)

lemma predicted_labels:
  "kmeans_predict [[- (1 / 101)], [10099 / 101], [- 1]] [- (1 / 101)] = Inr 0"
  "kmeans_predict [[- (1 / 101)], [10099 / 101], [- 1]] [- 1] = Inr 2"
  "kmeans_predict [[- (1 / 101)], [10099 / 101], [- 1]] [10099 / 101] = Inr 1"
  by (simp_all add: kmeans_predict_def kmeans_transform_def euclidean_distance_1d np_argmin_def
      np_argmax_def)

lemma order_of_centres: "np_argsort (map (\<lambda>c. c ! 0) [[- (1 / 101)], [10099 / 101], [- 1 :: real]]) = [2, 0, 1]"
  by (simp add: np_argsort_def upt_rec)


lemma training_column:
  "np_mean (map (\<lambda>row. row ! 0) (replicate 9998 [100] @ [[99], [201]])) = 100.01"
  "np_var (map (\<lambda>row. row ! 0) (replicate 9998 [100] @ [[99], [201]])) = 1.01\<^sup>2"
  by (simp_all add: np_var_def np_mean_def sum_list_replicate power2_eq_square o_def)

lemma training_scaled:
  "collect (map (scaler_transform \<lparr>scaler_mean = [100.01], scaler_scale = [1.01]\<rparr>)
              (replicate 9998 [100] @ [[99], [201]])) =
     Inr (replicate 9998 [- (1 / 101)] @ [[- 1], [10099 / 101]])"
proof -
  have "collect (map (scaler_transform \<lparr>scaler_mean = [100.01], scaler_scale = [1.01]\<rparr>)
              (replicate 9998 [100] @ [[99], [201]])) =
        Inr (map (\<lambda>x. if x = [100] then [- (1 / 101)] else if x = [99] then [- 1]
                        else [10099 / 101]) (replicate 9998 [100] @ [[99], [201 :: real]]))"
    by (rule collect_map_Inr) (use scaled_points in auto)
  then show ?thesis by simp
qed

lemma training_labels:
  "collect (map (kmeans_predict [[- (1 / 101)], [10099 / 101], [- 1]])
              (replicate 9998 [- (1 / 101)] @ [[- 1], [10099 / 101]])) =
     Inr (replicate 9998 0 @ [2, 1])"
proof -
  have "collect (map (kmeans_predict [[- (1 / 101)], [10099 / 101], [- 1]])
              (replicate 9998 [- (1 / 101)] @ [[- 1], [10099 / 101]])) =
        Inr (map (\<lambda>x. if x = [- (1 / 101)] then 0 else if x = [- 1] then 2 else 1)
               (replicate 9998 [- (1 / 101)] @ [[- 1], [10099 / 101 :: real]]))"
    by (rule collect_map_Inr) (use predicted_labels in auto)
  then show ?thesis by simp
qed

lemma training_transitions:
  "estimate_transition_matrix (replicate 9998 0 @ [2, 1]) =
     Inr [[9997 / 9998, 0, 1 / 9998], [0, 0, 0], [0, 1, 0]]"
proof -
  have pairs: "zip (butlast (replicate 9998 0 @ [2, 1 :: nat])) (tl (replicate 9998 0 @ [2, 1])) =
      replicate 9997 (0, 0) @ [(0, 2), (2, 1)]"
  proof -
    have e: "(9998 :: nat) = Suc 9997" by simp
    have "replicate 9998 (0 :: nat) = replicate 9997 0 @ [0]"
      by (simp only: e replicate_Suc replicate_append_same)
    then have "butlast (replicate 9998 0 @ [2, 1 :: nat]) = replicate 9997 0 @ [0, 2]"
      by (simp add: butlast_append)
    moreover have "tl (replicate 9998 0 @ [2, 1 :: nat]) = replicate 9997 0 @ [2, 1]"
      by simp
    ultimately show ?thesis by simp
  qed
  have states: "card (set (replicate 9998 0 @ [2, 1 :: nat])) = 3" by simp
  show ?thesis
    unfolding estimate_transition_matrix_def Let_def pairs states
    by (simp add: upt_rec list_ex_iff)
qed


lemma fitted_classifier:
  "regime_fit (\<lambda>X. Inr \<lparr>scaler_mean = [100.01], scaler_scale = [1.01]\<rparr>)
     (\<lambda>k X. Inr [[- (1 / 101)], [10099 / 101], [- 1]]) lstsq fit_hmm
     (regime_classifier_init 3) (replicate 9998 [100] @ [[99], [201]]) ''kmeans'' =
   Inr \<lparr>n_regimes = 3,
        scaler = \<lparr>scaler_mean = [100.01], scaler_scale = [1.01]\<rparr>,
        classifier_fitted = True,
        initial_probs =
          Some (stationary_distribution lstsq [[9997 / 9998, 0, 1 / 9998], [0, 0, 0], [0, 1, 0]]),
        transition_matrix = Some [[9997 / 9998, 0, 1 / 9998], [0, 0, 0], [0, 1, 0]],
        emission_means = None,
        emission_covs = None,
        kmeans = Some [[- (1 / 101)], [10099 / 101], [- 1]],
        regime_order = Some [2, 0, 1]\<rparr>"
proof -
  define sc where "sc = \<lparr>scaler_mean = [100.01 :: real], scaler_scale = [1.01]\<rparr>"
  define C where "C = [[- (1 / 101)], [10099 / 101], [- 1 :: real]]"
  define X where "X = replicate 9998 [100] @ [[99], [201 :: real]]"
  define X' where "X' = replicate 9998 [- (1 / 101)] @ [[- 1], [10099 / 101 :: real]]"
  define labels where "labels = replicate 9998 0 @ [2, 1 :: nat]"
  define T where "T = [[9997 / 9998, 0, 1 / 9998], [0, 0, 0], [0, 1, 0 :: real]]"
  have 1: "collect (map (scaler_transform sc) X) = Inr X'"
    unfolding sc_def X_def X'_def by (rule training_scaled)
  have 2: "collect (map (kmeans_predict C) X') = Inr labels"
    unfolding C_def X'_def labels_def by (rule training_labels)
  have 3: "estimate_transition_matrix labels = Inr T"
    unfolding labels_def T_def by (rule training_transitions)
  have 4: "np_argsort (map (\<lambda>c. c ! 0) C) = [2, 0, 1]"
    unfolding C_def by (rule order_of_centres)
  have "regime_fit (\<lambda>X. Inr sc) (\<lambda>k X. Inr C) lstsq fit_hmm (regime_classifier_init 3) X
          ''kmeans'' =
        Inr \<lparr>n_regimes = 3, scaler = sc, classifier_fitted = True,
             initial_probs = Some (stationary_distribution lstsq T),
             transition_matrix = Some T, emission_means = None, emission_covs = None,
             kmeans = Some C, regime_order = Some [2, 0, 1]\<rparr>"
    unfolding regime_fit_def fit_kmeans_def regime_classifier_init_def Let_def
    by (simp add: 1 2 3 4)
  then show ?thesis unfolding sc_def C_def X_def T_def .
qed


lemma sum_list_exp_pos:
  assumes "ds \<noteq> []"
  shows "0 < (\<Sum>d\<leftarrow>ds. exp (- d :: real))"
proof (cases ds)
  case Nil
  with assms show ?thesis by simp
next
  case (Cons a rest)
  have "0 \<le> (\<Sum>d\<leftarrow>rest. exp (- d))" by (rule sum_list_nonneg) auto
  then have "0 < exp (- a) + (\<Sum>d\<leftarrow>rest. exp (- d))"
    by (intro add_pos_nonneg) simp_all
  then show ?thesis by (simp add: Cons)
qed

lemma classify_kmeans:
  assumes "classifier_fitted st"
    and "scaler_transform (scaler st) x = Inr x'"
    and "kmeans st = Some centers"
    and "kmeans_transform centers x' = Inr ds"
    and "np_argmax (map (\<lambda>d. exp (- d)) ds) = Inr k"
    and "regime_order st = Some order"
    and "k < length order"
    and "transition_matrix st = Some T"
    and "\<exists>tp. transition_row (n_regimes st) T order (order ! k) = Inr tp"
    and "regime_of_index (order ! k) = Inr r"
  shows "map_sum id state_regime (classify pdf st x) = Inr r"
proof -
  have "ds \<noteq> []" using assms(5) by (auto simp: np_argmax_def)
  then have pos: "0 < (\<Sum>d\<leftarrow>ds. exp (- d))" by (rule sum_list_exp_pos)
  have "np_argmax (map (\<lambda>p. p / (\<Sum>d\<leftarrow>ds. exp (- d))) (map (\<lambda>d. exp (- d)) ds)) = Inr k"
    unfolding np_argmax_scaled [OF pos] by (rule assms(5))
  moreover from assms(9) obtain tp where
    "transition_row (n_regimes st) T order (order ! k) = Inr tp" by blast
  ultimately show ?thesis
    unfolding classify_def Let_def using assms(1-4,6-8,10) by simp
qed

text \<open>
  C3. The regime labels of \<open>classify\<close> are not ordered by risk. \<open>_fit_kmeans\<close> stores
  \<open>np.argsort(centers[:, 0])\<close>, the list that sends a rank to the cluster of that rank, and
  \<open>classify\<close> reads it at the index of a cluster, as if it sent a cluster to its rank. The
  two agree only when the order of the clusters is its own inverse. Take 10000 rows of
  one feature: 9998 times 100, then 99 and 201, with mean 100.01 and standard deviation
  1.01 (lemma \<open>training_column\<close>), so the scaled values are -1/101, -1 and 10099/101; and let
  k-means number the three clusters in the order middle, high, low. Then the stored order
  is \<open>[2, 0, 1]\<close> and \<open>classify\<close> answers VOLATILE for the lowest value 99, CRISIS for the
  middle value 100 and CALM for the highest value 201.
\<close>

theorem classify_labels_not_risk_ordered:
  "\<exists>st. regime_fit (\<lambda>X. Inr \<lparr>scaler_mean = [100.01], scaler_scale = [1.01]\<rparr>)
           (\<lambda>k X. Inr [[- (1 / 101)], [10099 / 101], [- 1]]) lstsq fit_hmm
           (regime_classifier_init 3) (replicate 9998 [100] @ [[99], [201]]) ''kmeans'' = Inr st \<and>
         kmeans st = Some [[- (1 / 101)], [10099 / 101], [- 1]] \<and>
         regime_order st = Some [2, 0, 1] \<and>
         map_sum id state_regime (classify pdf st [99]) = Inr VOLATILE \<and>
         map_sum id state_regime (classify pdf st [100]) = Inr CRISIS \<and>
         map_sum id state_regime (classify pdf st [201]) = Inr CALM"
proof -
  define st where "st =
    \<lparr>n_regimes = 3,
     scaler = \<lparr>scaler_mean = [100.01], scaler_scale = [1.01]\<rparr>,
     classifier_fitted = True,
     initial_probs =
       Some (stationary_distribution lstsq [[9997 / 9998, 0, 1 / 9998], [0, 0, 0], [0, 1, 0]]),
     transition_matrix = Some [[9997 / 9998, 0, 1 / 9998], [0, 0, 0], [0, 1, 0]],
     emission_means = None,
     emission_covs = None,
     kmeans = Some [[- (1 / 101)], [10099 / 101], [- 1]],
     regime_order = Some [2, 0, 1]\<rparr>"
  have fit: "regime_fit (\<lambda>X. Inr \<lparr>scaler_mean = [100.01], scaler_scale = [1.01]\<rparr>)
           (\<lambda>k X. Inr [[- (1 / 101)], [10099 / 101], [- 1]]) lstsq fit_hmm
           (regime_classifier_init 3) (replicate 9998 [100] @ [[99], [201]]) ''kmeans'' = Inr st"
    unfolding st_def by (rule fitted_classifier)
  have low: "map_sum id state_regime (classify pdf st [99]) = Inr VOLATILE"
    by (rule classify_kmeans [where x' = "[- 1]" and ds = "[100 / 101, 10200 / 101, 0]"
          and k = 2 and order = "[2, 0, 1]"
          and centers = "[[- (1 / 101)], [10099 / 101], [- 1]]"
          and T = "[[9997 / 9998, 0, 1 / 9998], [0, 0, 0], [0, 1, 0]]"])
      (simp_all add: st_def scaler_transform_def kmeans_transform_def euclidean_distance_1d
        np_argmax_def transition_row_def regime_of_index_def upt_rec)
  have middle: "map_sum id state_regime (classify pdf st [100]) = Inr CRISIS"
    by (rule classify_kmeans [where x' = "[- (1 / 101)]" and ds = "[0, 100, 100 / 101]"
          and k = 0 and order = "[2, 0, 1]"
          and centers = "[[- (1 / 101)], [10099 / 101], [- 1]]"
          and T = "[[9997 / 9998, 0, 1 / 9998], [0, 0, 0], [0, 1, 0]]"])
      (simp_all add: st_def scaler_transform_def kmeans_transform_def euclidean_distance_1d
        np_argmax_def transition_row_def regime_of_index_def upt_rec)
  have high: "map_sum id state_regime (classify pdf st [201]) = Inr CALM"
    by (rule classify_kmeans [where x' = "[10099 / 101]" and ds = "[100, 0, 10200 / 101]"
          and k = 1 and order = "[2, 0, 1]"
          and centers = "[[- (1 / 101)], [10099 / 101], [- 1]]"
          and T = "[[9997 / 9998, 0, 1 / 9998], [0, 0, 0], [0, 1, 0]]"])
      (simp_all add: st_def scaler_transform_def kmeans_transform_def euclidean_distance_1d
        np_argmax_def transition_row_def regime_of_index_def upt_rec)
  have "kmeans st = Some [[- (1 / 101)], [10099 / 101], [- 1]]"
    and "regime_order st = Some [2, 0, 1]"
    by (simp_all add: st_def)
  with fit low middle high show ?thesis by blast
qed

end
